theory Spec2Isabelle
  imports Complex_Main
begin

section \<open>The lathe telemetry generator (mongodb_data_generator.py)\<close>

text \<open>
  The development embeds \<^verbatim>\<open>calculate_machine_parameters\<close> and
  \<^verbatim>\<open>generate_batch_sensor_data\<close> of \<^verbatim>\<open>src/mongodb_data_generator.py\<close>.

  Conventions of the embedding:
  \<^item> Python floats and numpy float arrays are real numbers and lists of reals. Rounding,
    infinities and NaN of IEEE arithmetic are not part of the model.
  \<^item> A raised exception is a value \<open>Inl e\<close> of the sum type \<open>exn + 'a\<close>.
  \<^item> The two random generators are streams that the code reads in order: \<open>rnd\<close> feeds
    \<^verbatim>\<open>random.randint\<close>, and \<open>zs\<close> is the stream of standard normal variates behind
    \<^verbatim>\<open>np.random.normal\<close>, so that \<^verbatim>\<open>normal(loc, scale, n)\<close> yields
    \<open>loc + scale * z\<close> for the next \<open>n\<close> variates. The definitions accept any real number
    as a variate; the variates that numpy's generator returns lie in \<open>gauss_range\<close>, which
    a theorem assumes where its claim depends on it.
  \<^item> The MongoDB server is a state holding, per lathe, the \<^verbatim>\<open>JobDetails\<close> and
    \<^verbatim>\<open>SensoryData\<close> collections as lists, together with an oracle that says which
    driver calls raise. The calls to \<^verbatim>\<open>print\<close> and \<^verbatim>\<open>time.sleep\<close> are left out, and
    so is \<^verbatim>\<open>client.close()\<close>, which changes nothing of this state.
\<close>

subsection \<open>Exceptions and the strings built from them\<close>

datatype exn =
    KeyError string
  | ValueError string
  | IndexError string
  | UnboundLocalError string
  | PyMongoError string

definition digit :: "nat \<Rightarrow> char" where
  "digit d = ''0123456789abcdef'' ! d"

fun str_nat :: "nat \<Rightarrow> string" where
  "str_nat n = (if n < 10 then [digit n] else str_nat (n div 10) @ [digit (n mod 10)])"

declare str_nat.simps [simp del]

definition str_int :: "int \<Rightarrow> string" where
  \<comment> \<open>\<^verbatim>\<open>str(i)\<close>, also what an f-string writes for an int\<close>
  "str_int i = (if i < 0 then CHR ''-'' # str_nat (nat (- i)) else str_nat (nat i))"

definition repr_char :: "char \<Rightarrow> char \<Rightarrow> string" where
  \<comment> \<open>one character of \<^verbatim>\<open>repr(s)\<close> inside the quotes \<open>q\<close>, for ASCII text\<close>
  "repr_char q c =
     (if c = q \<or> c = CHR 0x5C then [CHR 0x5C, c]
      else if c = CHR 0x0A then [CHR 0x5C, CHR ''n'']
      else if c = CHR 0x0D then [CHR 0x5C, CHR ''r'']
      else if c = CHR 0x09 then [CHR 0x5C, CHR ''t'']
      else if (of_char c :: nat) < 32 \<or> (of_char c :: nat) = 127
        then [CHR 0x5C, CHR ''x'', digit (of_char c div 16), digit (of_char c mod 16)]
      else [c])"

definition py_repr :: "string \<Rightarrow> string" where
  \<comment> \<open>\<^verbatim>\<open>repr(s)\<close> of a str: double quotes only when \<open>s\<close> has a single quote and no double one\<close>
  "py_repr s =
     (let q = (if CHR 0x27 \<in> set s \<and> CHR 0x22 \<notin> set s then CHR 0x22 else CHR 0x27)
      in q # concat (map (repr_char q) s) @ [q])"

fun str_exn :: "exn \<Rightarrow> string" where
  \<comment> \<open>\<^verbatim>\<open>str(e)\<close>: a KeyError prints the repr of its key, the others their message\<close>
  "str_exn (KeyError k) = py_repr k"
| "str_exn (ValueError m) = m"
| "str_exn (IndexError m) = m"
| "str_exn (UnboundLocalError m) = m"
| "str_exn (PyMongoError m) = m"

definition getitem :: "(string \<rightharpoonup> 'v) \<Rightarrow> string \<Rightarrow> exn + 'v" where
  \<comment> \<open>\<^verbatim>\<open>d[k]\<close> on a dict with str keys\<close>
  "getitem d k = (case d k of None \<Rightarrow> Inl (KeyError k) | Some v \<Rightarrow> Inr v)"

subsection \<open>The static tables\<close>

record material_props =
  hardness :: real
  thermal_conductivity :: real
  specific_heat :: real

definition MATERIAL_PROFILES :: "string \<rightharpoonup> material_props" where
  "MATERIAL_PROFILES = map_of
     [(''Mild Steel'', \<lparr>hardness = 120, thermal_conductivity = 50, specific_heat = 460\<rparr>),
      (''Aluminum'', \<lparr>hardness = 35, thermal_conductivity = 237, specific_heat = 900\<rparr>),
      (''Wood'', \<lparr>hardness = 2, thermal_conductivity = 12 / 100, specific_heat = 1700\<rparr>)]"

definition TOOL_WEAR_RATES :: "string \<rightharpoonup> real" where
  "TOOL_WEAR_RATES = map_of
     [(''Mild Steel'', 15 / 100), (''Aluminum'', 8 / 100), (''Wood'', 2 / 100)]"

definition JOB_TYPES :: "string list" where
  "JOB_TYPES = [''turning'', ''facing'', ''threading'', ''drilling'', ''boring'', ''knurling'']"

subsection \<open>Library functions of Python and numpy\<close>

definition randint :: "int \<Rightarrow> int \<Rightarrow> nat \<Rightarrow> int" where
  \<comment> \<open>\<^verbatim>\<open>random.randint(a, b)\<close>: the integer of \<open>[a, b]\<close> chosen by the next value \<open>u\<close> of
     the generator; every integer of the range is reached by some \<open>u\<close>\<close>
  "randint a b u = a + int (u mod nat (b - a + 1))"

definition py_int :: "real \<Rightarrow> int" where
  \<comment> \<open>\<^verbatim>\<open>int(x)\<close> on a float truncates towards zero\<close>
  "py_int x = (if 0 \<le> x then \<lfloor>x\<rfloor> else \<lceil>x\<rceil>)"

definition linspace :: "real \<Rightarrow> real \<Rightarrow> int \<Rightarrow> exn + real list" where
  \<comment> \<open>\<^verbatim>\<open>np.linspace(start, stop, num)\<close> with the default \<^verbatim>\<open>endpoint=True\<close>: the
     step divides the span by \<open>num - 1\<close>, and the last of two or more points is \<open>stop\<close>\<close>
  "linspace start stop num =
     (if num < 0
      then Inl (ValueError (''Number of samples, '' @ str_int num @ '', must be non-negative.''))
      else
        let n = nat num; delta = stop - start in
        Inr (map (\<lambda>i. if 1 < n \<and> i = n - 1 then stop
                       else if 1 < n then start + real i * (delta / real (n - 1))
                       else start + real i * delta) [0..<n]))"

definition normal :: "real \<Rightarrow> real \<Rightarrow> nat \<Rightarrow> (nat \<Rightarrow> real) \<Rightarrow> real list \<times> (nat \<Rightarrow> real)" where
  \<comment> \<open>\<^verbatim>\<open>np.random.normal(loc, scale, n)\<close>: the array drawn and the rest of the stream\<close>
  "normal loc scale n zs = (map (\<lambda>i. loc + scale * zs i) [0..<n], \<lambda>i. zs (n + i))"

definition gauss_range :: "real \<Rightarrow> bool" where
  \<comment> \<open>the standard normal variates that \<^verbatim>\<open>np.random.normal\<close> can return: its generator
     is the polar method on pairs \<open>(x1, x2)\<close> of 53-bit uniform doubles scaled to \<open>[-1, 1)\<close>,
     accepted when \<open>0 < r2 = x1*x1 + x2*x2 < 1\<close>, and returns \<open>x * sqrt(-2 * ln r2 / r2)\<close>;
     with \<open>x*x \<le> r2\<close> and \<open>r2 \<ge> 2 ^ -104\<close> its absolute value is at most
     \<open>sqrt(2 * 104 * ln 2)\<close>, a little over 12\<close>
  "gauss_range z \<longleftrightarrow> \<bar>z\<bar> \<le> 13"

definition clip :: "real \<Rightarrow> real \<Rightarrow> real \<Rightarrow> real" where
  \<comment> \<open>\<^verbatim>\<open>np.clip(a, a_min, a_max)\<close> on one element\<close>
  "clip a a_min a_max = min a_max (max a a_min)"

subsection \<open>calculate\_machine\_parameters\<close>

definition base_rpm_dict :: "(nat \<Rightarrow> nat) \<Rightarrow> string \<rightharpoonup> int" where
  \<comment> \<open>the dict literal of \<open>base_rpm\<close>: building it draws all three speeds, in this order\<close>
  "base_rpm_dict rnd = map_of
     [(''Mild Steel'', randint 800 1200 (rnd 0)),
      (''Aluminum'', randint 1500 2500 (rnd 1)),
      (''Wood'', randint 2800 3500 (rnd 2))]"

definition base_power_dict :: "string \<rightharpoonup> real" where
  "base_power_dict = map_of
     [(''turning'', 35 / 10), (''facing'', 4), (''threading'', 28 / 10),
      (''drilling'', 5), (''boring'', 3), (''knurling'', 25 / 10)]"

definition calculate_machine_parameters ::
  "(nat \<Rightarrow> nat) \<Rightarrow> string \<Rightarrow> string \<Rightarrow> int \<Rightarrow> exn + (int \<times> real)" where
  "calculate_machine_parameters rnd material job_type tool_diameter =
     (case getitem (base_rpm_dict rnd) material of
        Inl e \<Rightarrow> Inl e
      | Inr base_rpm \<Rightarrow>
          (case getitem base_power_dict job_type of
             Inl e \<Rightarrow> Inl e
           | Inr factor \<Rightarrow> Inr (base_rpm, factor * (real_of_int tool_diameter / 10))))"

subsection \<open>The sensor series (lines 100 to 143 of generate\_batch\_sensor\_data)\<close>

record sensor_arrays =
  elapsed_minutes :: "real list"
  tool_wear :: "real list"
  current_rpm :: "real list"
  current_power :: "real list"
  workpiece_temp :: "real list"
  vibration :: "real list"

definition vibration_base_dict :: "string \<rightharpoonup> real" where
  \<comment> \<open>the dict literal of \<open>vibration_base\<close>, lines 136 to 140\<close>
  "vibration_base_dict = map_of
     [(''Mild Steel'', 25 / 10), (''Aluminum'', 18 / 10), (''Wood'', 8 / 10)]"

definition tool_wear_progression :: "real \<Rightarrow> real list \<Rightarrow> real list \<Rightarrow> real list" where
  \<comment> \<open>\<^verbatim>\<open>np.minimum(100, rate * elapsed_minutes * noise)\<close>\<close>
  "tool_wear_progression rate elapsed noise =
     map2 (\<lambda>t z. min 100 (rate * t * z)) elapsed noise"

definition rpm_simulation :: "int \<Rightarrow> real list \<Rightarrow> real list \<Rightarrow> real list" where
  \<comment> \<open>\<^verbatim>\<open>np.maximum(100, base_rpm * (1 - tool_wear/500) * (1 + rpm_noise))\<close>\<close>
  "rpm_simulation base_rpm wear noise =
     map2 (\<lambda>w z. max 100 (real_of_int base_rpm * (1 - w / 500) * (1 + z))) wear noise"

definition power_simulation :: "real \<Rightarrow> real list \<Rightarrow> real list \<Rightarrow> real list" where
  \<comment> \<open>\<^verbatim>\<open>np.maximum(0.5, base_power * (1 + (tool_wear/100) * 0.5) * (1 + power_noise))\<close>\<close>
  "power_simulation base_power wear noise =
     map2 (\<lambda>w z. max (1 / 2) (base_power * (1 + (w / 100) * (1 / 2)) * (1 + z))) wear noise"

definition temperature_simulation ::
  "real \<Rightarrow> real \<Rightarrow> material_props \<Rightarrow> real list \<Rightarrow> real list \<Rightarrow> real list \<Rightarrow> real list" where
  \<comment> \<open>lines 128 to 133: heat from the power, spread over heat capacity and hardness, cooled,
     then noise and \<^verbatim>\<open>np.clip(..., ambient_temp, 300)\<close>\<close>
  "temperature_simulation ambient_temp cooling_efficiency material_props pwr elapsed noise =
     map (\<lambda>(p, t, z).
            clip (ambient_temp
                    + ((p * 1000 * (8 / 10)) * t * 60)
                        / (specific_heat material_props * hardness material_props)
                      * (1 - cooling_efficiency)
                  + z) ambient_temp 300)
         (zip pwr (zip elapsed noise))"

definition vibration_simulation :: "real \<Rightarrow> real list \<Rightarrow> real list \<Rightarrow> real list \<Rightarrow> real list" where
  \<comment> \<open>\<^verbatim>\<open>np.maximum(0, vibration_base * (current_rpm/1000) * (1 + tool_wear/50) * (1 + noise))\<close>\<close>
  "vibration_simulation vibration_base rpm wear noise =
     map (\<lambda>(r, w, z). max 0 (vibration_base * (r / 1000) * (1 + w / 50) * (1 + z)))
         (zip rpm (zip wear noise))"

definition simulation ::
  "(nat \<Rightarrow> nat) \<Rightarrow> (nat \<Rightarrow> real) \<Rightarrow> real \<Rightarrow> string \<Rightarrow> string \<Rightarrow> int \<Rightarrow> exn + sensor_arrays" where
  "simulation rnd zs duration material job_type tool_no =
     (let tool_diameter = 10 + tool_no * 2 in
      case calculate_machine_parameters rnd material job_type tool_diameter of
        Inl e \<Rightarrow> Inl e
      | Inr (base_rpm, base_power) \<Rightarrow>
      let cooling_efficiency = 7 / 10;
          ambient_temp = 25;
          n_points = py_int (duration * 60 / 5) in
      case linspace 0 duration n_points of
        Inl e \<Rightarrow> Inl e
      | Inr elapsed \<Rightarrow>
      case getitem TOOL_WEAR_RATES material of
        Inl e \<Rightarrow> Inl e
      | Inr rate \<Rightarrow>
      let (wear_noise, zs1) = normal 1 (5 / 100) (nat n_points) zs;
          wear = tool_wear_progression rate elapsed wear_noise;
          (rpm_noise, zs2) = normal 0 (3 / 100) (nat n_points) zs1;
          rpm = rpm_simulation base_rpm wear rpm_noise;
          (power_noise, zs3) = normal 0 (5 / 100) (nat n_points) zs2;
          pwr = power_simulation base_power wear power_noise in
      case getitem MATERIAL_PROFILES material of
        Inl e \<Rightarrow> Inl e
      | Inr material_props \<Rightarrow>
      let (temp_noise, zs4) = normal 0 2 (nat n_points) zs3;
          temp = temperature_simulation ambient_temp cooling_efficiency material_props
                   pwr elapsed temp_noise in
      case getitem vibration_base_dict material of
        Inl e \<Rightarrow> Inl e
      | Inr vibration_base \<Rightarrow>
      let (vib_noise, zs5) = normal 0 (1 / 10) (nat n_points) zs4;
          vib = vibration_simulation vibration_base rpm wear vib_noise in
      Inr \<lparr>elapsed_minutes = elapsed, tool_wear = wear, current_rpm = rpm,
           current_power = pwr, workpiece_temp = temp, vibration = vib\<rparr>)"

subsection \<open>Documents, collections and the driver\<close>

type_synonym datetime = int  \<comment> \<open>microseconds since the epoch\<close>

definition timedelta :: "int \<Rightarrow> int" where
  \<comment> \<open>\<^verbatim>\<open>timedelta(seconds=s)\<close>\<close>
  "timedelta s = s * 1000000"

record job_key =
  JobID :: string
  LatheID :: int
  Material :: string
  JobType :: string
  ToolNo :: int

record job_record = job_key +
  StartTime :: datetime
  Status :: string
  FinalToolWear :: real
  EndTime :: "datetime option"

record document = job_key +
  timestamp :: datetime
  Temperature :: real
  Vibration :: real
  RPM :: real
  Power :: real
  ToolWear :: real

record mongo =
  JobDetails :: "int \<Rightarrow> job_record list"
  SensoryData :: "int \<Rightarrow> document list"

text \<open>
  What the function reads from outside: the clock (the two calls of
  \<^verbatim>\<open>datetime.now()\<close>), the two random streams, and for every driver call whether it
  raises and with which message. A failing \<^verbatim>\<open>insert_many\<close> may have written a prefix
  of its batch, whose length the oracle gives.
\<close>

record world =
  now_start :: datetime
  now_base :: datetime
  py_random :: "nat \<Rightarrow> nat"
  np_random :: "nat \<Rightarrow> real"
  ping :: "nat \<Rightarrow> string option"
  create_index :: "nat \<Rightarrow> string option"
  insert_one :: "string option"
  insert_many :: "nat \<Rightarrow> (string \<times> nat) option"
  update_one :: "string option"

fun connect :: "(nat \<Rightarrow> string option) \<Rightarrow> nat \<Rightarrow> nat list \<Rightarrow> exn + bool" where
  \<comment> \<open>the retry loop over \<^verbatim>\<open>range(max_retries)\<close>; the result says whether \<open>client\<close> is bound\<close>
  "connect pg max_retries [] = Inr False"
| "connect pg max_retries (attempt # rest) =
     (case pg attempt of
        None \<Rightarrow> Inr True
      | Some m \<Rightarrow> if attempt = max_retries - 1 then Inl (PyMongoError m)
                  else connect pg max_retries rest)"

definition ensure_collections_exist :: "(nat \<Rightarrow> string option) \<Rightarrow> exn + unit" where
  \<comment> \<open>three \<^verbatim>\<open>create_index\<close> calls; the collections themselves are read from the state\<close>
  "ensure_collections_exist ci =
     (case ci 0 of Some m \<Rightarrow> Inl (PyMongoError m) | None \<Rightarrow>
      case ci 1 of Some m \<Rightarrow> Inl (PyMongoError m) | None \<Rightarrow>
      case ci 2 of Some m \<Rightarrow> Inl (PyMongoError m) | None \<Rightarrow> Inr ())"

definition timestamps :: "datetime \<Rightarrow> nat \<Rightarrow> datetime list" where
  \<comment> \<open>\<^verbatim>\<open>[base_time + timedelta(seconds=5*i) for i in range(n_points)]\<close>\<close>
  "timestamps base_time n_points = map (\<lambda>i. base_time + timedelta (5 * int i)) [0..<n_points]"

definition documents ::
  "datetime list \<Rightarrow> int \<Rightarrow> string \<Rightarrow> string \<Rightarrow> string \<Rightarrow> int \<Rightarrow> sensor_arrays \<Rightarrow> document list" where
  \<comment> \<open>lines 151 to 165: one document per element of the zip of the six sequences\<close>
  "documents tss lathe_id job_id material job_type tool_no a =
     (map (\<lambda>(ts, temp, vib, r, pwr, wear).
             \<lparr>JobID = job_id, LatheID = lathe_id, Material = material, JobType = job_type,
              ToolNo = tool_no, timestamp = ts, Temperature = temp, Vibration = vib,
              RPM = r, Power = pwr, ToolWear = wear\<rparr>)
          (zip tss (zip (workpiece_temp a) (zip (vibration a)
             (zip (current_rpm a) (zip (current_power a) (tool_wear a)))))))"

function insert_batches ::
  "(nat \<Rightarrow> (string \<times> nat) option) \<Rightarrow> nat \<Rightarrow> document list \<Rightarrow> document list \<Rightarrow> nat
     \<Rightarrow> (exn + nat) \<times> document list" where
  \<comment> \<open>the loop over \<^verbatim>\<open>range(0, len(documents), 1000)\<close>: \<open>k\<close> counts the batches,
     \<open>rest\<close> is \<^verbatim>\<open>documents[i:]\<close>, \<open>col\<close> the collection; returns \<open>inserted_count\<close>\<close>
  "insert_batches im k rest col inserted_count =
     (if rest = [] then (Inr inserted_count, col)
      else
        let batch = take 1000 rest in
        case im k of
          Some (m, written) \<Rightarrow> (Inl (PyMongoError m), col @ take written batch)
        | None \<Rightarrow> insert_batches im (k + 1) (drop 1000 rest) (col @ batch)
                    (inserted_count + length batch))"
  by pat_completeness auto
termination
  by (relation "measure (\<lambda>(im, k, rest, col, inserted_count). length rest)") auto

declare insert_batches.simps [simp del]

fun update_first :: "string \<Rightarrow> (job_record \<Rightarrow> job_record) \<Rightarrow> job_record list \<Rightarrow> job_record list" where
  \<comment> \<open>\<^verbatim>\<open>update_one({'JobID': job_id}, {'$set': ...})\<close>: the first match, if any\<close>
  "update_first job_id f [] = []"
| "update_first job_id f (r # rs) =
     (if JobID r = job_id then f r # rs else r # update_first job_id f rs)"

subsection \<open>generate\_batch\_sensor\_data\<close>

definition try_block ::
  "world \<Rightarrow> mongo \<Rightarrow> int \<Rightarrow> string \<Rightarrow> real \<Rightarrow> string \<Rightarrow> string \<Rightarrow> int \<Rightarrow> (exn + string) \<times> mongo" where
  \<comment> \<open>the body of the outer \<^verbatim>\<open>try\<close>, lines 57 to 188, with the state it leaves behind\<close>
  "try_block w db lathe_id job_id duration material job_type tool_no =
     (let max_retries = 3 in
      case connect (ping w) max_retries [0..<max_retries] of
        Inl e \<Rightarrow> (Inl e, db)
      | Inr False \<Rightarrow>
          (Inl (UnboundLocalError
             ''cannot access local variable 'client' where it is not associated with a value''), db)
      | Inr True \<Rightarrow>
      case ensure_collections_exist (create_index w) of
        Inl e \<Rightarrow> (Inl e, db)
      | Inr _ \<Rightarrow>
      let job_record = \<lparr>JobID = job_id, LatheID = lathe_id, Material = material,
                        JobType = job_type, ToolNo = tool_no, StartTime = now_start w,
                        Status = ''Running'', FinalToolWear = 0, EndTime = None\<rparr> in
      case insert_one w of
        Some m \<Rightarrow> (Inl (PyMongoError m), db)
      | None \<Rightarrow>
      let db1 = db\<lparr>JobDetails := (JobDetails db)(lathe_id := JobDetails db lathe_id @ [job_record])\<rparr> in
      case simulation (py_random w) (np_random w) duration material job_type tool_no of
        Inl e \<Rightarrow> (Inl e, db1)
      | Inr a \<Rightarrow>
      let n_points = py_int (duration * 60 / 5);
          base_time = now_base w;
          tss = timestamps base_time (nat n_points);
          docs = documents tss lathe_id job_id material job_type tool_no a in
      case insert_batches (insert_many w) 0 docs (SensoryData db1 lathe_id) 0 of
        (Inl e, col) \<Rightarrow> (Inl e, db1\<lparr>SensoryData := (SensoryData db1)(lathe_id := col)\<rparr>)
      | (Inr inserted_count, col) \<Rightarrow>
      let db2 = db1\<lparr>SensoryData := (SensoryData db1)(lathe_id := col)\<rparr> in
      if tool_wear a = []
      then (Inl (IndexError ''index -1 is out of bounds for axis 0 with size 0''), db2)
      else
      case update_one w of
        Some m \<Rightarrow> (Inl (PyMongoError m), db2)
      | None \<Rightarrow>
      (Inr (''Successfully generated '' @ str_nat inserted_count @ '' data points for Job ''
              @ job_id @ '' (Lathe '' @ str_int lathe_id @ '')''),
       db2\<lparr>JobDetails := (JobDetails db2)(lathe_id :=
              update_first job_id
                (\<lambda>r. r\<lparr>Status := ''Completed'', FinalToolWear := last (tool_wear a),
                       EndTime := Some (last tss)\<rparr>)
                (JobDetails db2 lathe_id))\<rparr>))"

definition generate_batch_sensor_data ::
  "world \<Rightarrow> mongo \<Rightarrow> int \<Rightarrow> string \<Rightarrow> real \<Rightarrow> string \<Rightarrow> string \<Rightarrow> int \<Rightarrow> string \<times> mongo" where
  \<comment> \<open>\<^verbatim>\<open>except Exception as e: return f"Error occurred: {str(e)}"\<close>: the function
     returns a string on every path\<close>
  "generate_batch_sensor_data w db lathe_id job_id duration material job_type tool_no =
     (case try_block w db lathe_id job_id duration material job_type tool_no of
        (Inr s, db') \<Rightarrow> (s, db')
      | (Inl e, db') \<Rightarrow> (''Error occurred: '' @ str_exn e, db'))"

subsection \<open>Healthy drivers and concrete inputs\<close>

definition driver_ok :: "world \<Rightarrow> bool" where
  \<comment> \<open>no driver call raises: the server answers a ping within the three attempts, and
     every index creation, insert and update succeeds\<close>
  "driver_ok w \<longleftrightarrow>
     connect (ping w) 3 [0..<3] = Inr True
     \<and> ensure_collections_exist (create_index w) = Inr ()
     \<and> insert_one w = None
     \<and> (\<forall>k. insert_many w k = None)
     \<and> update_one w = None"

definition const_stream :: "'a \<Rightarrow> nat \<Rightarrow> 'a" where
  \<comment> \<open>a stream that repeats one value\<close>
  "const_stream c k = c"

definition quiet_world :: "real \<Rightarrow> world" where
  \<comment> \<open>a healthy driver, the clock at 0, \<^verbatim>\<open>randint\<close> at its lower bound, and every
     standard normal variate equal to \<open>z\<close>\<close>
  "quiet_world z =
     \<lparr>now_start = 0, now_base = 0, py_random = const_stream 0, np_random = const_stream z,
      ping = const_stream None, create_index = const_stream None, insert_one = None,
      insert_many = const_stream None, update_one = None\<rparr>"

definition empty_db :: mongo where
  "empty_db = \<lparr>JobDetails = (\<lambda>lathe_id. []), SensoryData = (\<lambda>lathe_id. [])\<rparr>"


definition quarter_run :: sensor_arrays where
  \<comment> \<open>the series of a quarter-minute turning job on mild steel with tool 1, the base speed
     at 800 and every variate 0\<close>
  "quarter_run =
     \<lparr>elapsed_minutes = [0, 1 / 8, 1 / 4], tool_wear = [0, 3 / 160, 3 / 80],
      current_rpm = [800, 79997 / 100, 39997 / 50],
      current_power = [21 / 5, 672063 / 160000, 336063 / 80000],
      workpiece_temp = [25, 370016189 / 14720000, 93008189 / 3680000],
      vibration = [2, 640215991 / 320000000, 160107991 / 80000000]\<rparr>"

section \<open>Properties\<close>

subsection \<open>The tables and the library functions\<close>

lemma material_known:
  "material \<in> dom TOOL_WEAR_RATES \<longleftrightarrow> material = ''Mild Steel'' \<or> material = ''Aluminum'' \<or> material = ''Wood''"
  unfolding TOOL_WEAR_RATES_def dom_map_of_conv_image_fst by auto

lemma dom_tables:
  "dom (base_rpm_dict rnd) = dom TOOL_WEAR_RATES"
  "dom MATERIAL_PROFILES = dom TOOL_WEAR_RATES"
  "dom vibration_base_dict = dom TOOL_WEAR_RATES"
  "dom base_power_dict = set JOB_TYPES"
  unfolding TOOL_WEAR_RATES_def base_rpm_dict_def MATERIAL_PROFILES_def vibration_base_dict_def
    base_power_dict_def JOB_TYPES_def dom_map_of_conv_image_fst
  by simp_all

lemma randint_range: "a \<le> b \<Longrightarrow> a \<le> randint a b u \<and> randint a b u \<le> b"
  unfolding randint_def
proof -
  assume ab: "a \<le> b"
  have "u mod nat (b - a + 1) < nat (b - a + 1)" using ab by (intro mod_less_divisor) simp
  then show "a \<le> a + int (u mod nat (b - a + 1)) \<and> a + int (u mod nat (b - a + 1)) \<le> b"
    using ab by linarith
qed

lemma base_rpm_dict_range:
  assumes "base_rpm_dict rnd material = Some b"
  shows "800 \<le> b \<and> b \<le> 3500"
proof -
  have r: "800 \<le> randint 800 1200 (rnd 0) \<and> randint 800 1200 (rnd 0) \<le> 1200"
     "1500 \<le> randint 1500 2500 (rnd 1) \<and> randint 1500 2500 (rnd 1) \<le> 2500"
     "2800 \<le> randint 2800 3500 (rnd 2) \<and> randint 2800 3500 (rnd 2) \<le> 3500"
    by (rule randint_range, simp)+
  from assms have "b = randint 800 1200 (rnd 0) \<or> b = randint 1500 2500 (rnd 1)
      \<or> b = randint 2800 3500 (rnd 2)"
    by (auto simp: base_rpm_dict_def split: if_splits)
  with r show ?thesis by auto
qed

lemma wear_rate_pos: "TOOL_WEAR_RATES material = Some rate \<Longrightarrow> 0 < rate"
  by (auto simp: TOOL_WEAR_RATES_def split: if_splits)

lemma getitem_Some: "d k = Some v \<Longrightarrow> getitem d k = Inr v"
  by (simp add: getitem_def)

lemma getitem_None: "d k = None \<Longrightarrow> getitem d k = Inl (KeyError k)"
  by (simp add: getitem_def)

lemma getitem_Inr: "getitem d k = Inr v \<longleftrightarrow> d k = Some v"
  by (simp add: getitem_def split: option.splits)

lemma calculate_machine_parameters_unknown:
  "material \<notin> dom TOOL_WEAR_RATES \<Longrightarrow>
     calculate_machine_parameters rnd material job_type tool_diameter = Inl (KeyError material)"
  using dom_tables(1)[of rnd]
  by (auto simp add: calculate_machine_parameters_def getitem_def split: option.splits)

lemma calculate_machine_parameters_unknown_job:
  "material \<in> dom TOOL_WEAR_RATES \<Longrightarrow> job_type \<notin> set JOB_TYPES \<Longrightarrow>
     calculate_machine_parameters rnd material job_type tool_diameter = Inl (KeyError job_type)"
  using dom_tables(1)[of rnd] dom_tables(4)
  by (auto simp add: calculate_machine_parameters_def getitem_def split: option.splits)

lemma calculate_machine_parameters_Inr:
  "calculate_machine_parameters rnd material job_type tool_diameter = Inr (b, p) \<longleftrightarrow>
     (\<exists>f. base_rpm_dict rnd material = Some b \<and> base_power_dict job_type = Some f
          \<and> p = f * (real_of_int tool_diameter / 10))"
  by (auto simp add: calculate_machine_parameters_def getitem_def split: option.splits)

subsection \<open>The sensor series\<close>

lemma linspace_Inl: "num < 0 \<Longrightarrow> \<exists>msg. linspace start stop num = Inl (ValueError msg)"
  by (simp add: linspace_def)

lemma linspace_Inr:
  "0 \<le> num \<Longrightarrow> \<exists>xs. linspace start stop num = Inr xs"
  by (simp add: linspace_def Let_def)

lemma length_linspace:
  "linspace start stop num = Inr xs \<Longrightarrow> length xs = nat num \<and> 0 \<le> num"
  by (auto simp: linspace_def Let_def split: if_splits)

lemma nth_linspace:
  "linspace 0 stop num = Inr xs \<Longrightarrow> i < nat num \<Longrightarrow>
     xs ! i = (if 1 < nat num \<and> i = nat num - 1 then stop
               else if 1 < nat num then real i * (stop / real (nat num - 1))
               else real i * stop)"
  by (auto simp: linspace_def Let_def split: if_splits)

lemma simulation_unknown_material:
  "material \<notin> dom TOOL_WEAR_RATES \<Longrightarrow>
     simulation rnd zs duration material job_type tool_no = Inl (KeyError material)"
  by (simp add: simulation_def calculate_machine_parameters_unknown)

lemma simulation_unknown_job:
  "material \<in> dom TOOL_WEAR_RATES \<Longrightarrow> job_type \<notin> set JOB_TYPES \<Longrightarrow>
     simulation rnd zs duration material job_type tool_no = Inl (KeyError job_type)"
  by (simp add: simulation_def calculate_machine_parameters_unknown_job)

lemma simulation_known:
  assumes "base_rpm_dict rnd material = Some b" "base_power_dict job_type = Some f"
    "TOOL_WEAR_RATES material = Some rate" "MATERIAL_PROFILES material = Some props"
    "vibration_base_dict material = Some vb"
  shows "simulation rnd zs duration material job_type tool_no =
    (case linspace 0 duration (py_int (duration * 60 / 5)) of
       Inl e \<Rightarrow> Inl e
     | Inr elapsed \<Rightarrow>
        (let n = nat (py_int (duration * 60 / 5));
             (wear_noise, zs1) = normal 1 (5 / 100) n zs;
             wear = tool_wear_progression rate elapsed wear_noise;
             (rpm_noise, zs2) = normal 0 (3 / 100) n zs1;
             rpm = rpm_simulation b wear rpm_noise;
             (power_noise, zs3) = normal 0 (5 / 100) n zs2;
             pwr = power_simulation (f * (real_of_int (10 + tool_no * 2) / 10)) wear power_noise;
             (temp_noise, zs4) = normal 0 2 n zs3;
             (vib_noise, zs5) = normal 0 (1 / 10) n zs4
         in Inr \<lparr>elapsed_minutes = elapsed, tool_wear = wear, current_rpm = rpm,
                 current_power = pwr,
                 workpiece_temp = temperature_simulation 25 (7 / 10) props pwr elapsed temp_noise,
                 vibration = vibration_simulation vb rpm wear vib_noise\<rparr>))"
  using assms
  by (simp add: simulation_def calculate_machine_parameters_def getitem_def Let_def
        split_beta split: sum.splits)

lemma known_tables:
  assumes "material \<in> dom TOOL_WEAR_RATES"
  obtains b rate props vb where
    "base_rpm_dict rnd material = Some b" "TOOL_WEAR_RATES material = Some rate"
    "MATERIAL_PROFILES material = Some props" "vibration_base_dict material = Some vb"
proof -
  from assms have "material \<in> dom (base_rpm_dict rnd)" "material \<in> dom MATERIAL_PROFILES"
    "material \<in> dom vibration_base_dict"
    by (simp_all add: dom_tables)
  with assms that show thesis by blast
qed

lemma known_job:
  assumes "job_type \<in> set JOB_TYPES"
  obtains f where "base_power_dict job_type = Some f"
  using assms unfolding dom_tables(4)[symmetric] by blast

lemma simulation_negative:
  assumes "material \<in> dom TOOL_WEAR_RATES" "job_type \<in> set JOB_TYPES" "py_int (duration * 60 / 5) < 0"
  shows "\<exists>msg. simulation rnd zs duration material job_type tool_no = Inl (ValueError msg)"
proof -
  from assms(1) obtain b rate props vb where
    "base_rpm_dict rnd material = Some b" "TOOL_WEAR_RATES material = Some rate"
    "MATERIAL_PROFILES material = Some props" "vibration_base_dict material = Some vb"
    by (rule known_tables)
  moreover from assms(2) obtain f where "base_power_dict job_type = Some f"
    by (rule known_job)
  moreover from linspace_Inl[OF assms(3)] obtain msg where
    "linspace 0 duration (py_int (duration * 60 / 5)) = Inl (ValueError msg)" by blast
  ultimately show ?thesis by (simp add: simulation_known)
qed

lemma simulation_InrD:
  assumes "simulation rnd zs duration material job_type tool_no = Inr a"
  shows "material \<in> dom TOOL_WEAR_RATES" "job_type \<in> set JOB_TYPES"
    "0 \<le> py_int (duration * 60 / 5)"
proof -
  show m: "material \<in> dom TOOL_WEAR_RATES"
    using assms simulation_unknown_material[of material rnd zs duration job_type tool_no]
    by (cases "material \<in> dom TOOL_WEAR_RATES") simp_all
  show j: "job_type \<in> set JOB_TYPES"
    using assms m simulation_unknown_job[of material job_type rnd zs duration tool_no]
    by (cases "job_type \<in> set JOB_TYPES") simp_all
  show "0 \<le> py_int (duration * 60 / 5)"
  proof (rule ccontr)
    assume "\<not> 0 \<le> py_int (duration * 60 / 5)"
    then have "py_int (duration * 60 / 5) < 0" by simp
    from simulation_negative[OF m j this, of rnd zs tool_no] assms show False by auto
  qed
qed

lemma length_normal: "length (fst (normal loc scale n zs)) = n"
  by (simp add: normal_def)

lemma nth_normal: "i < n \<Longrightarrow> fst (normal loc scale n zs) ! i = loc + scale * zs i"
  by (simp add: normal_def)

lemma snd_normal: "snd (normal loc scale n zs) k = zs (n + k)"
  by (simp add: normal_def)

lemma simulation_arrays:
  assumes "simulation rnd zs duration material job_type tool_no = Inr a"
    and n: "n = nat (py_int (duration * 60 / 5))"
  shows "\<exists>b f rate props vb.
      base_rpm_dict rnd material = Some b \<and> base_power_dict job_type = Some f
    \<and> TOOL_WEAR_RATES material = Some rate \<and> MATERIAL_PROFILES material = Some props
    \<and> vibration_base_dict material = Some vb
    \<and> linspace 0 duration (py_int (duration * 60 / 5)) = Inr (elapsed_minutes a)
    \<and> tool_wear a = tool_wear_progression rate (elapsed_minutes a) (fst (normal 1 (5 / 100) n zs))
    \<and> current_rpm a = rpm_simulation b (tool_wear a)
         (fst (normal 0 (3 / 100) n (snd (normal 1 (5 / 100) n zs))))
    \<and> current_power a = power_simulation (f * (real_of_int (10 + tool_no * 2) / 10)) (tool_wear a)
         (fst (normal 0 (5 / 100) n (snd (normal 0 (3 / 100) n (snd (normal 1 (5 / 100) n zs))))))
    \<and> workpiece_temp a = temperature_simulation 25 (7 / 10) props (current_power a)
         (elapsed_minutes a)
         (fst (normal 0 2 n (snd (normal 0 (5 / 100) n (snd (normal 0 (3 / 100) n
            (snd (normal 1 (5 / 100) n zs))))))))
    \<and> vibration a = vibration_simulation vb (current_rpm a) (tool_wear a)
         (fst (normal 0 (1 / 10) n (snd (normal 0 2 n (snd (normal 0 (5 / 100) n
            (snd (normal 0 (3 / 100) n (snd (normal 1 (5 / 100) n zs))))))))))"
proof -
  note D = simulation_InrD[OF assms(1)]
  from D(1) obtain b rate props vb where t:
    "base_rpm_dict rnd material = Some b" "TOOL_WEAR_RATES material = Some rate"
    "MATERIAL_PROFILES material = Some props" "vibration_base_dict material = Some vb"
    by (rule known_tables)
  from D(2) obtain f where f: "base_power_dict job_type = Some f" by (rule known_job)
  from linspace_Inr[OF D(3)] obtain elapsed where
    l: "linspace 0 duration (py_int (duration * 60 / 5)) = Inr elapsed" by blast
  have "Inr a = simulation rnd zs duration material job_type tool_no" using assms(1) by simp
  also note simulation_known[OF t(1) f t(2,3,4)]
  finally show ?thesis
    using t f l n by (simp add: Let_def split_beta)
qed

lemma length_tool_wear_progression:
  "length elapsed = n \<Longrightarrow> length noise = n \<Longrightarrow> length (tool_wear_progression rate elapsed noise) = n"
  by (simp add: tool_wear_progression_def)

lemma nth_tool_wear_progression:
  "i < length elapsed \<Longrightarrow> i < length noise \<Longrightarrow>
     tool_wear_progression rate elapsed noise ! i = min 100 (rate * elapsed ! i * noise ! i)"
  by (simp add: tool_wear_progression_def)

lemma length_rpm_simulation:
  "length wear = n \<Longrightarrow> length noise = n \<Longrightarrow> length (rpm_simulation b wear noise) = n"
  by (simp add: rpm_simulation_def)

lemma nth_rpm_simulation:
  "i < length wear \<Longrightarrow> i < length noise \<Longrightarrow>
     rpm_simulation b wear noise ! i = max 100 (real_of_int b * (1 - wear ! i / 500) * (1 + noise ! i))"
  by (simp add: rpm_simulation_def)

lemma length_power_simulation:
  "length wear = n \<Longrightarrow> length noise = n \<Longrightarrow> length (power_simulation p wear noise) = n"
  by (simp add: power_simulation_def)

lemma length_temperature_simulation:
  "length pwr = n \<Longrightarrow> length elapsed = n \<Longrightarrow> length noise = n \<Longrightarrow>
     length (temperature_simulation amb c props pwr elapsed noise) = n"
  by (simp add: temperature_simulation_def)

lemma length_vibration_simulation:
  "length rpm = n \<Longrightarrow> length wear = n \<Longrightarrow> length noise = n \<Longrightarrow>
     length (vibration_simulation vb rpm wear noise) = n"
  by (simp add: vibration_simulation_def)

lemma rpm_simulation_bound: "r \<in> set (rpm_simulation b wear noise) \<Longrightarrow> 100 \<le> r"
  by (auto simp: rpm_simulation_def)

lemma power_simulation_bound: "p \<in> set (power_simulation bp wear noise) \<Longrightarrow> 1 / 2 \<le> p"
  by (auto simp: power_simulation_def)

lemma temperature_simulation_bound:
  "T \<in> set (temperature_simulation 25 c props pwr elapsed noise) \<Longrightarrow> 25 \<le> T \<and> T \<le> 300"
  by (auto simp: temperature_simulation_def clip_def)

lemma vibration_simulation_bound: "v \<in> set (vibration_simulation vb rpm wear noise) \<Longrightarrow> 0 \<le> v"
  by (auto simp: vibration_simulation_def)

lemma tool_wear_progression_upper: "w \<in> set (tool_wear_progression rate elapsed noise) \<Longrightarrow> w \<le> 100"
  by (auto simp: tool_wear_progression_def)

lemma simulation_lengths:
  assumes "simulation rnd zs duration material job_type tool_no = Inr a"
    and n: "n = nat (py_int (duration * 60 / 5))"
  shows "length (elapsed_minutes a) = n" "length (tool_wear a) = n" "length (current_rpm a) = n"
    "length (current_power a) = n" "length (workpiece_temp a) = n" "length (vibration a) = n"
proof -
  from simulation_arrays[OF assms] obtain b f rate props vb where
    l: "linspace 0 duration (py_int (duration * 60 / 5)) = Inr (elapsed_minutes a)"
    and w: "tool_wear a = tool_wear_progression rate (elapsed_minutes a) (fst (normal 1 (5 / 100) n zs))"
    and r: "current_rpm a = rpm_simulation b (tool_wear a)
         (fst (normal 0 (3 / 100) n (snd (normal 1 (5 / 100) n zs))))"
    and p: "current_power a = power_simulation (f * (real_of_int (10 + tool_no * 2) / 10)) (tool_wear a)
         (fst (normal 0 (5 / 100) n (snd (normal 0 (3 / 100) n (snd (normal 1 (5 / 100) n zs))))))"
    and t: "workpiece_temp a = temperature_simulation 25 (7 / 10) props (current_power a)
         (elapsed_minutes a)
         (fst (normal 0 2 n (snd (normal 0 (5 / 100) n (snd (normal 0 (3 / 100) n
            (snd (normal 1 (5 / 100) n zs))))))))"
    and v: "vibration a = vibration_simulation vb (current_rpm a) (tool_wear a)
         (fst (normal 0 (1 / 10) n (snd (normal 0 2 n (snd (normal 0 (5 / 100) n
            (snd (normal 0 (3 / 100) n (snd (normal 1 (5 / 100) n zs))))))))))"
    by blast
  show e: "length (elapsed_minutes a) = n" using length_linspace[OF l] n by simp
  show lw: "length (tool_wear a) = n"
    by (subst w) (rule length_tool_wear_progression[OF e length_normal])
  show lr: "length (current_rpm a) = n"
    by (subst r) (rule length_rpm_simulation[OF lw length_normal])
  show lp: "length (current_power a) = n"
    by (subst p) (rule length_power_simulation[OF lw length_normal])
  show "length (workpiece_temp a) = n"
    by (subst t) (rule length_temperature_simulation[OF lp e length_normal])
  show "length (vibration a) = n"
    by (subst v) (rule length_vibration_simulation[OF lr lw length_normal])
qed

subsection \<open>Concrete runs, documents and the time vector\<close>

lemmas eval_defs = simulation_def calculate_machine_parameters_def getitem_def base_rpm_dict_def
  base_power_dict_def TOOL_WEAR_RATES_def MATERIAL_PROFILES_def vibration_base_dict_def
  randint_def py_int_def linspace_def normal_def const_stream_def tool_wear_progression_def
  rpm_simulation_def power_simulation_def temperature_simulation_def vibration_simulation_def
  clip_def Let_def upt_conv_Cons

lemma quarter_run_eq:
  "simulation (const_stream 0) (const_stream 0) (1 / 4) ''Mild Steel'' ''turning'' 1 = Inr quarter_run"
  by (simp add: eval_defs quarter_run_def)

lemma documents_set:
  assumes "d \<in> set (documents tss lathe_id job_id material job_type tool_no a)"
  shows "Temperature d \<in> set (workpiece_temp a)" "Vibration d \<in> set (vibration a)"
    "RPM d \<in> set (current_rpm a)" "Power d \<in> set (current_power a)"
    "ToolWear d \<in> set (tool_wear a)"
proof -
  from assms obtain ts temp vib r pwr wear where
    mem: "(ts, temp, vib, r, pwr, wear) \<in> set (zip tss (zip (workpiece_temp a) (zip (vibration a)
             (zip (current_rpm a) (zip (current_power a) (tool_wear a))))))"
    and d: "Temperature d = temp" "Vibration d = vib" "RPM d = r" "Power d = pwr" "ToolWear d = wear"
    unfolding documents_def by auto
  note m1 = set_zip_rightD[OF mem]
  note m2 = set_zip_rightD[OF m1]
  note m3 = set_zip_rightD[OF m2]
  note m4 = set_zip_rightD[OF m3]
  show "Temperature d \<in> set (workpiece_temp a)" using set_zip_leftD[OF m1] d by simp
  show "Vibration d \<in> set (vibration a)" using set_zip_leftD[OF m2] d by simp
  show "RPM d \<in> set (current_rpm a)" using set_zip_leftD[OF m3] d by simp
  show "Power d \<in> set (current_power a)" using set_zip_leftD[OF m4] d by simp
  show "ToolWear d \<in> set (tool_wear a)" using set_zip_rightD[OF m4] d by simp
qed

lemma length_documents:
  assumes "length tss = n" "length (workpiece_temp a) = n" "length (vibration a) = n"
    "length (current_rpm a) = n" "length (current_power a) = n" "length (tool_wear a) = n"
  shows "length (documents tss lathe_id job_id material job_type tool_no a) = n"
  using assms by (simp add: documents_def)

lemma length_timestamps: "length (timestamps base_time n) = n"
  by (simp add: timestamps_def)


lemma linspace_mono:
  assumes "linspace 0 stop num = Inr xs" "0 \<le> stop" "i \<le> j" "j < nat num"
  shows "xs ! i \<le> xs ! j"
proof -
  let ?n = "nat num"
  have i: "i < ?n" using assms by simp
  note xi = nth_linspace[OF assms(1) i]
  note xj = nth_linspace[OF assms(1) assms(4)]
  show ?thesis
  proof (cases "1 < ?n")
    case False
    then have "i = 0" "j = 0" using assms by simp_all
    then show ?thesis by simp
  next
    case True
    then have pos: "0 < real (?n - 1)" by simp
    have step: "0 \<le> stop / real (?n - 1)" using assms(2) pos by simp
    have last: "real (?n - 1) * (stop / real (?n - 1)) = stop" using pos by simp
    have val: "xs ! k = real k * (stop / real (?n - 1))" if "k < ?n" for k
    proof (cases "k = ?n - 1")
      case True
      with nth_linspace[OF assms(1) that] \<open>1 < ?n\<close> have "xs ! k = stop"
        by (simp only: simp_thms if_True)
      with last True show ?thesis by simp
    next
      case False
      with nth_linspace[OF assms(1) that] \<open>1 < ?n\<close> show ?thesis
        by (simp only: simp_thms if_True if_False)
    qed
    have "real i * (stop / real (?n - 1)) \<le> real j * (stop / real (?n - 1))"
      using assms(3) step by (intro mult_right_mono) simp_all
    then show ?thesis using val[OF i] val[OF assms(4)] by simp
  qed
qed

lemma linspace_nonneg:
  assumes "linspace 0 stop num = Inr xs" "0 \<le> stop" "i < nat num"
  shows "0 \<le> xs ! i"
proof -
  have "xs ! 0 \<le> xs ! i" using assms by (intro linspace_mono[OF assms(1,2)]) simp_all
  moreover have "xs ! 0 = 0" using nth_linspace[OF assms(1), of 0] assms(3) by auto
  ultimately show ?thesis by simp
qed

lemma py_int_pos: "0 < py_int x \<Longrightarrow> 0 < x"
  by (auto simp: py_int_def split: if_splits)

lemma py_int_floor: "0 \<le> x \<Longrightarrow> py_int x = \<lfloor>x\<rfloor>"
  by (simp add: py_int_def)

lemma py_int_nonpos: "x \<le> 0 \<Longrightarrow> py_int x \<le> 0"
  by (auto simp: py_int_def)

lemma simulation_tool_wear_nth:
  assumes "simulation rnd zs duration material job_type tool_no = Inr a"
    and "i < length (tool_wear a)"
  shows "\<exists>rate. TOOL_WEAR_RATES material = Some rate
     \<and> tool_wear a ! i = min 100 (rate * elapsed_minutes a ! i * (1 + 5 / 100 * zs i))"
proof -
  let ?n = "nat (py_int (duration * 60 / 5))"
  note len = simulation_lengths[OF assms(1) refl]
  from simulation_arrays[OF assms(1) refl] obtain rate where
    rate: "TOOL_WEAR_RATES material = Some rate"
    and w: "tool_wear a = tool_wear_progression rate (elapsed_minutes a) (fst (normal 1 (5 / 100) ?n zs))"
    by blast
  have i: "i < ?n" using assms(2) len(2) by simp
  have li: "i < length (elapsed_minutes a)" using i len(1) by simp
  have ln: "i < length (fst (normal 1 (5 / 100) ?n zs))" using i by (simp only: length_normal)
  have "tool_wear a ! i = min 100 (rate * elapsed_minutes a ! i * fst (normal 1 (5 / 100) ?n zs) ! i)"
    by (subst w) (rule nth_tool_wear_progression[OF li ln])
  with rate nth_normal[OF i, of 1 "5 / 100" zs] show ?thesis by simp
qed

lemma simulation_elapsed_nonneg:
  assumes "simulation rnd zs duration material job_type tool_no = Inr a"
    and "i < length (elapsed_minutes a)"
  shows "0 \<le> elapsed_minutes a ! i" "0 < duration"
proof -
  let ?n = "nat (py_int (duration * 60 / 5))"
  note len = simulation_lengths[OF assms(1) refl]
  from simulation_arrays[OF assms(1) refl] have
    l: "linspace 0 duration (py_int (duration * 60 / 5)) = Inr (elapsed_minutes a)" by blast
  have i: "i < ?n" using assms(2) len(1) by simp
  then have "0 < py_int (duration * 60 / 5)" by simp
  from py_int_pos[OF this] show d: "0 < duration" by simp
  from linspace_nonneg[OF l _ i] d show "0 \<le> elapsed_minutes a ! i" by simp
qed

lemma simulation_rpm_nth:
  assumes "simulation rnd zs duration material job_type tool_no = Inr a"
    and "i < length (current_rpm a)"
  shows "\<exists>b. base_rpm_dict rnd material = Some b
     \<and> current_rpm a ! i = max 100 (real_of_int b * (1 - tool_wear a ! i / 500)
          * (1 + 3 / 100 * zs (nat (py_int (duration * 60 / 5)) + i)))"
proof -
  let ?n = "nat (py_int (duration * 60 / 5))"
  note len = simulation_lengths[OF assms(1) refl]
  from simulation_arrays[OF assms(1) refl] obtain b where
    b: "base_rpm_dict rnd material = Some b"
    and r: "current_rpm a = rpm_simulation b (tool_wear a)
         (fst (normal 0 (3 / 100) ?n (snd (normal 1 (5 / 100) ?n zs))))"
    by blast
  have i: "i < ?n" using assms(2) len(3) by simp
  have li: "i < length (tool_wear a)" using i len(2) by simp
  have ln: "i < length (fst (normal 0 (3 / 100) ?n (snd (normal 1 (5 / 100) ?n zs))))"
    using i by (simp only: length_normal)
  have nz: "fst (normal 0 (3 / 100) ?n (snd (normal 1 (5 / 100) ?n zs))) ! i
      = 3 / 100 * zs (?n + i)"
    using i by (simp add: normal_def)
  have "current_rpm a ! i = max 100 (real_of_int b * (1 - tool_wear a ! i / 500)
      * (1 + 3 / 100 * zs (?n + i)))"
    by (subst r, subst nth_rpm_simulation[OF li ln], subst nz, rule refl)
  with b show ?thesis by blast
qed

subsection \<open>The driver and the outer handler\<close>

lemma insert_batches_Nil: "insert_batches im k [] col c = (Inr c, col)"
  by (simp add: insert_batches.simps)

lemma insert_batches_ok:
  "(\<forall>k. im k = None) \<Longrightarrow> insert_batches im k docs col c = (Inr (c + length docs), col @ docs)"
proof (induction im k docs col c rule: insert_batches.induct)
  case (1 im k rest col inserted_count)
  show ?case
  proof (cases "rest = []")
    case True
    then show ?thesis by (simp add: insert_batches_Nil)
  next
    case False
    have none: "im k = None" using "1.prems" by simp
    have "insert_batches im k rest col inserted_count
        = insert_batches im (k + 1) (drop 1000 rest) (col @ take 1000 rest)
            (inserted_count + length (take 1000 rest))"
      using False none by (subst insert_batches.simps) (simp add: Let_def)
    also have "\<dots> = (Inr (inserted_count + length (take 1000 rest) + length (drop 1000 rest)),
        (col @ take 1000 rest) @ drop 1000 rest)"
      using "1.IH"[OF False refl none "1.prems"] by simp
    finally show ?thesis by simp
  qed
qed

lemma documents_Nil: "tool_wear a = [] \<Longrightarrow> documents tss l jid m j t a = []"
  by (simp add: documents_def)

lemma driver_ok_quiet_world: "driver_ok (quiet_world z)"
  by (simp add: driver_ok_def quiet_world_def const_stream_def ensure_collections_exist_def
      upt_conv_Cons)

lemma try_block_failure:
  assumes "\<forall>a. simulation (py_random w) (np_random w) duration material job_type tool_no = Inr a
             \<longrightarrow> tool_wear a = []"
  shows "\<exists>e. fst (try_block w db lathe_id job_id duration material job_type tool_no) = Inl e"
    and "SensoryData (snd (try_block w db lathe_id job_id duration material job_type tool_no))
          = SensoryData db"
  using assms
  unfolding try_block_def Let_def
  by (auto simp: insert_batches_Nil documents_Nil
      split: sum.splits bool.splits option.splits prod.splits)

lemma driver_okD:
  assumes "driver_ok w"
  shows "connect (ping w) 3 [0..<3] = Inr True"
    "ensure_collections_exist (create_index w) = Inr ()"
    "insert_one w = None" "\<forall>k. insert_many w k = None" "update_one w = None"
  using assms by (simp_all add: driver_ok_def)

lemma try_block_simulation_error:
  assumes "connect (ping w) 3 [0..<3] = Inr True"
    "ensure_collections_exist (create_index w) = Inr ()" "insert_one w = None"
    and "simulation (py_random w) (np_random w) duration material job_type tool_no = Inl e"
  shows "try_block w db lathe_id job_id duration material job_type tool_no =
    (Inl e, db\<lparr>JobDetails := (JobDetails db)(lathe_id := JobDetails db lathe_id @
       [\<lparr>JobID = job_id, LatheID = lathe_id, Material = material, JobType = job_type,
         ToolNo = tool_no, StartTime = now_start w, Status = ''Running'', FinalToolWear = 0,
         EndTime = None\<rparr>])\<rparr>)"
  using assms by (simp add: try_block_def Let_def)

lemma try_block_success:
  assumes "driver_ok w"
    and "simulation (py_random w) (np_random w) duration material job_type tool_no = Inr a"
    and "tool_wear a \<noteq> []"
    and "docs = documents (timestamps (now_base w) (nat (py_int (duration * 60 / 5))))
                  lathe_id job_id material job_type tool_no a"
  shows "fst (try_block w db lathe_id job_id duration material job_type tool_no) =
      Inr (''Successfully generated '' @ str_nat (length docs) @ '' data points for Job ''
              @ job_id @ '' (Lathe '' @ str_int lathe_id @ '')'')"
    and "SensoryData (snd (try_block w db lathe_id job_id duration material job_type tool_no))
      = (SensoryData db)(lathe_id := SensoryData db lathe_id @ docs)"
    and "JobDetails (snd (try_block w db lathe_id job_id duration material job_type tool_no))
      = (JobDetails db)(lathe_id := update_first job_id
          (\<lambda>r. r\<lparr>Status := ''Completed'', FinalToolWear := last (tool_wear a),
                 EndTime := Some (last (timestamps (now_base w) (nat (py_int (duration * 60 / 5)))))\<rparr>)
          (JobDetails db lathe_id @
            [\<lparr>JobID = job_id, LatheID = lathe_id, Material = material, JobType = job_type,
              ToolNo = tool_no, StartTime = now_start w, Status = ''Running'', FinalToolWear = 0,
              EndTime = None\<rparr>]))"
  using driver_okD[OF assms(1)] assms(2,3,4)
  by (simp_all add: try_block_def Let_def insert_batches_ok)

lemma generate_fst:
  "fst (generate_batch_sensor_data w db lathe_id job_id duration material job_type tool_no) =
    (case fst (try_block w db lathe_id job_id duration material job_type tool_no) of
       Inr s \<Rightarrow> s | Inl e \<Rightarrow> ''Error occurred: '' @ str_exn e)"
  by (simp add: generate_batch_sensor_data_def split: prod.splits sum.splits)

lemma generate_snd:
  "snd (generate_batch_sensor_data w db lathe_id job_id duration material job_type tool_no) =
    snd (try_block w db lathe_id job_id duration material job_type tool_no)"
  by (simp add: generate_batch_sensor_data_def split: prod.splits sum.splits)

lemma normal_cong:
  "(\<forall>k<n. zs k = zs' k) \<Longrightarrow> fst (normal loc scale n zs) = fst (normal loc scale n zs')"
  by (simp add: normal_def)

lemma simulation_cong:
  assumes rpm: "base_rpm_dict rnd material = base_rpm_dict rnd' material"
    and zs: "\<forall>k < 5 * nat (py_int (duration * 60 / 5)). zs k = zs' k"
  shows "simulation rnd zs duration material job_type tool_no
       = simulation rnd' zs' duration material job_type tool_no"
proof (cases "material \<in> dom TOOL_WEAR_RATES \<and> job_type \<in> set JOB_TYPES")
  case False
  then show ?thesis
    using simulation_unknown_material[of material] simulation_unknown_job[of material job_type]
    by (cases "material \<in> dom TOOL_WEAR_RATES") simp_all
next
  case True
  let ?n = "nat (py_int (duration * 60 / 5))"
  from True obtain b rate props vb where t:
    "base_rpm_dict rnd material = Some b" "TOOL_WEAR_RATES material = Some rate"
    "MATERIAL_PROFILES material = Some props" "vibration_base_dict material = Some vb"
    by (blast intro: known_tables)
  from True obtain f where f: "base_power_dict job_type = Some f" by (blast intro: known_job)
  have t': "base_rpm_dict rnd' material = Some b" using t(1) rpm by simp
  let ?z1 = "snd (normal 1 (5 / 100) ?n zs)" and ?y1 = "snd (normal 1 (5 / 100) ?n zs')"
  let ?z2 = "snd (normal 0 (3 / 100) ?n ?z1)" and ?y2 = "snd (normal 0 (3 / 100) ?n ?y1)"
  let ?z3 = "snd (normal 0 (5 / 100) ?n ?z2)" and ?y3 = "snd (normal 0 (5 / 100) ?n ?y2)"
  let ?z4 = "snd (normal 0 2 ?n ?z3)" and ?y4 = "snd (normal 0 2 ?n ?y3)"
  have n1: "fst (normal 1 (5 / 100) ?n zs) = fst (normal 1 (5 / 100) ?n zs')"
    using zs by (intro normal_cong) simp
  have n2: "fst (normal 0 (3 / 100) ?n ?z1) = fst (normal 0 (3 / 100) ?n ?y1)"
    using zs by (intro normal_cong) (simp add: snd_normal)
  have n3: "fst (normal 0 (5 / 100) ?n ?z2) = fst (normal 0 (5 / 100) ?n ?y2)"
    using zs by (intro normal_cong) (simp add: snd_normal)
  have n4: "fst (normal 0 2 ?n ?z3) = fst (normal 0 2 ?n ?y3)"
    using zs by (intro normal_cong) (simp add: snd_normal)
  have n5: "fst (normal 0 (1 / 10) ?n ?z4) = fst (normal 0 (1 / 10) ?n ?y4)"
    using zs by (intro normal_cong) (simp add: snd_normal)
  show ?thesis
    unfolding simulation_known[OF t(1) f t(2,3,4)] simulation_known[OF t' f t(2,3,4)]
      Let_def split_beta
    by (simp only: n1 n2 n3 n4 n5)
qed

lemma simulation_Inr_ex:
  assumes "material \<in> dom TOOL_WEAR_RATES" and "job_type \<in> set JOB_TYPES"
    and nn: "0 \<le> py_int (duration * 60 / 5)"
  shows "\<exists>a. simulation rnd zs duration material job_type tool_no = Inr a"
proof -
  from assms(1) obtain b rate props vb where t:
    "base_rpm_dict rnd material = Some b" "TOOL_WEAR_RATES material = Some rate"
    "MATERIAL_PROFILES material = Some props" "vibration_base_dict material = Some vb"
    by (rule known_tables)
  from assms(2) obtain f where f: "base_power_dict job_type = Some f" by (rule known_job)
  from linspace_Inr[OF nn] obtain elapsed where
    l: "linspace 0 duration (py_int (duration * 60 / 5)) = Inr elapsed" by blast
  show ?thesis
    unfolding simulation_known[OF t(1) f t(2,3,4)] l by (simp add: Let_def split_beta)
qed

lemma simulation_empty:
  assumes "simulation rnd zs duration material job_type tool_no = Inr a"
    and "py_int (duration * 60 / 5) \<le> 0"
  shows "tool_wear a = []"
  using simulation_lengths(2)[OF assms(1) refl] assms(2) by simp

lemma try_block_empty:
  assumes "driver_ok w"
    and "simulation (py_random w) (np_random w) duration material job_type tool_no = Inr a"
    and "tool_wear a = []"
  shows "fst (try_block w db lathe_id job_id duration material job_type tool_no) =
      Inl (IndexError ''index -1 is out of bounds for axis 0 with size 0'')"
  using driver_okD[OF assms(1)] assms(2,3)
  by (simp add: try_block_def Let_def insert_batches_Nil documents_Nil)

lemma generate_success:
  assumes "driver_ok w" and "material \<in> dom TOOL_WEAR_RATES" and "job_type \<in> set JOB_TYPES"
    and "0 < py_int (duration * 60 / 5)"
  shows "\<exists>a. simulation (py_random w) (np_random w) duration material job_type tool_no = Inr a
    \<and> length (documents (timestamps (now_base w) (nat (py_int (duration * 60 / 5))))
                  lathe_id job_id material job_type tool_no a) = nat (py_int (duration * 60 / 5))
    \<and> fst (generate_batch_sensor_data w db lathe_id job_id duration material job_type tool_no) =
      ''Successfully generated '' @ str_nat (nat (py_int (duration * 60 / 5)))
        @ '' data points for Job '' @ job_id @ '' (Lathe '' @ str_int lathe_id @ '')''
    \<and> SensoryData (snd (generate_batch_sensor_data w db lathe_id job_id duration material
         job_type tool_no))
      = (SensoryData db)(lathe_id := SensoryData db lathe_id @
          documents (timestamps (now_base w) (nat (py_int (duration * 60 / 5))))
                  lathe_id job_id material job_type tool_no a)"
proof -
  let ?n = "nat (py_int (duration * 60 / 5))"
  from simulation_Inr_ex[OF assms(2,3)] assms(4) obtain a where
    a: "simulation (py_random w) (np_random w) duration material job_type tool_no = Inr a"
    by fastforce
  note len = simulation_lengths[OF a refl]
  let ?docs = "documents (timestamps (now_base w) ?n) lathe_id job_id material job_type tool_no a"
  have ld: "length ?docs = ?n"
    by (rule length_documents[OF length_timestamps len(5,6,3,4,2)])
  have ne: "tool_wear a \<noteq> []" using len(2) assms(4) by auto
  note tb = try_block_success[OF assms(1) a ne refl, of db]
  have "fst (generate_batch_sensor_data w db lathe_id job_id duration material job_type tool_no) =
      ''Successfully generated '' @ str_nat ?n
        @ '' data points for Job '' @ job_id @ '' (Lathe '' @ str_int lathe_id @ '')''"
    unfolding generate_fst tb(1) ld by simp
  moreover have "SensoryData (snd (generate_batch_sensor_data w db lathe_id job_id duration
       material job_type tool_no)) = (SensoryData db)(lathe_id := SensoryData db lathe_id @ ?docs)"
    unfolding generate_snd by (rule tb(2))
  ultimately show ?thesis using a ld by blast
qed

lemma generate_failure:
  assumes "\<forall>a. simulation (py_random w) (np_random w) duration material job_type tool_no = Inr a
             \<longrightarrow> tool_wear a = []"
  shows "\<exists>e. fst (try_block w db lathe_id job_id duration material job_type tool_no) = Inl e
      \<and> fst (generate_batch_sensor_data w db lathe_id job_id duration material job_type tool_no)
          = ''Error occurred: '' @ str_exn e"
    and "SensoryData (snd (generate_batch_sensor_data w db lathe_id job_id duration material
           job_type tool_no)) = SensoryData db"
proof -
  from try_block_failure(1)[OF assms, of db lathe_id job_id] obtain e where
    e: "fst (try_block w db lathe_id job_id duration material job_type tool_no) = Inl e" ..
  then show "\<exists>e. fst (try_block w db lathe_id job_id duration material job_type tool_no) = Inl e
      \<and> fst (generate_batch_sensor_data w db lathe_id job_id duration material job_type tool_no)
          = ''Error occurred: '' @ str_exn e"
    by (simp add: generate_fst)
  show "SensoryData (snd (generate_batch_sensor_data w db lathe_id job_id duration material
           job_type tool_no)) = SensoryData db"
    unfolding generate_snd by (rule try_block_failure(2)[OF assms])
qed

lemma generate_simulation_error:
  assumes "driver_ok w"
    and "simulation (py_random w) (np_random w) duration material job_type tool_no = Inl e"
  shows "generate_batch_sensor_data w db lathe_id job_id duration material job_type tool_no =
    (''Error occurred: '' @ str_exn e,
     db\<lparr>JobDetails := (JobDetails db)(lathe_id := JobDetails db lathe_id @
       [\<lparr>JobID = job_id, LatheID = lathe_id, Material = material, JobType = job_type,
         ToolNo = tool_no, StartTime = now_start w, Status = ''Running'', FinalToolWear = 0,
         EndTime = None\<rparr>])\<rparr>)"
  using try_block_simulation_error[OF driver_okD(1-3)[OF assms(1)] assms(2), of db lathe_id job_id]
  by (simp add: generate_batch_sensor_data_def)

lemma str_nat_3: "str_nat 3 = ''3''"
  by (simp add: str_nat.simps digit_def)

lemma str_int_1: "str_int 1 = ''1''"
  by (simp add: str_int_def str_nat.simps digit_def)

lemma base_rpm_dict_cong:
  "(\<forall>k<3. rnd k = rnd' k) \<Longrightarrow> base_rpm_dict rnd = base_rpm_dict rnd'"
  by (simp add: base_rpm_dict_def)

subsection \<open>The range of the generator, error messages and document fields\<close>

lemma ln_2_le: "ln (2::real) \<le> 13 / 16"
proof -
  have "(2::real) \<le> 1 + 13 / 16 + (13 / 16)\<^sup>2 / 2" by (simp add: power2_eq_square)
  also have "\<dots> \<le> exp (13 / 16)" by (rule exp_lower_Taylor_quadratic) simp
  finally have "ln (2::real) \<le> ln (exp (13 / 16))" by (subst ln_le_cancel_iff) simp_all
  then show ?thesis by simp
qed

lemma polar_method_gauss_range:
  assumes "x * x \<le> r2" and "2 powr (- 104) \<le> r2" and "r2 < 1"
  shows "gauss_range (x * sqrt (- 2 * ln r2 / r2))"
proof -
  have low: "0 < (2::real) powr (- 104)" by (rule powr_gt_zero[THEN iffD2]) simp
  have pos: "0 < r2" using low assms(2) by (rule less_le_trans)
  have "ln ((2::real) powr (- 104)) \<le> ln r2"
    using assms(2) pos low by (subst ln_le_cancel_iff) assumption+
  moreover have "ln ((2::real) powr (- 104)) = - (104 * ln 2)"
    by (subst ln_powr) simp_all
  ultimately have "- 2 * ln r2 \<le> 208 * ln 2" by simp
  also have "\<dots> \<le> 169" using ln_2_le by simp
  finally have top: "- 2 * ln r2 \<le> 169" .
  have neg: "ln r2 < 0" using pos assms(3) by simp
  define q where "q = - 2 * ln r2 / r2"
  have "0 \<le> - 2 * ln r2" using neg by simp
  then have q: "0 \<le> q" unfolding q_def using pos by (intro divide_nonneg_pos)
  have rq: "r2 * q = - 2 * ln r2" unfolding q_def using pos by simp
  have "(x * sqrt q)\<^sup>2 = (x * x) * q"
    using q by (simp add: power_mult_distrib power2_eq_square[of x])
  also have "\<dots> \<le> r2 * q" using assms(1) q by (rule mult_right_mono)
  also have "\<dots> \<le> 169" unfolding rq by (rule top)
  finally have "(x * sqrt q)\<^sup>2 \<le> 13\<^sup>2" by simp
  then have "\<bar>x * sqrt q\<bar> \<le> \<bar>13\<bar>" by (rule abs_le_square_iff[THEN iffD2])
  then have "\<bar>x * sqrt (- 2 * ln r2 / r2)\<bar> \<le> 13" unfolding q_def by simp
  then show ?thesis by (simp add: gauss_range_def)
qed

lemma linspace_negative:
  "num < 0 \<Longrightarrow> linspace start stop num =
     Inl (ValueError (''Number of samples, '' @ str_int num @ '', must be non-negative.''))"
  by (simp add: linspace_def)

lemma simulation_negative_message:
  assumes "material \<in> dom TOOL_WEAR_RATES" "job_type \<in> set JOB_TYPES" "py_int (duration * 60 / 5) < 0"
  shows "simulation rnd zs duration material job_type tool_no =
     Inl (ValueError (''Number of samples, '' @ str_int (py_int (duration * 60 / 5))
            @ '', must be non-negative.''))"
proof -
  from assms(1) obtain b rate props vb where t:
    "base_rpm_dict rnd material = Some b" "TOOL_WEAR_RATES material = Some rate"
    "MATERIAL_PROFILES material = Some props" "vibration_base_dict material = Some vb"
    by (rule known_tables)
  from assms(2) obtain f where f: "base_power_dict job_type = Some f" by (rule known_job)
  show ?thesis
    unfolding simulation_known[OF t(1) f t(2,3,4)] linspace_negative[OF assms(3)] by simp
qed

lemma try_block_empty_state:
  assumes "driver_ok w"
    and "simulation (py_random w) (np_random w) duration material job_type tool_no = Inr a"
    and "tool_wear a = []"
  shows "JobDetails (snd (try_block w db lathe_id job_id duration material job_type tool_no)) =
      (JobDetails db)(lathe_id := JobDetails db lathe_id @
        [\<lparr>JobID = job_id, LatheID = lathe_id, Material = material, JobType = job_type,
          ToolNo = tool_no, StartTime = now_start w, Status = ''Running'', FinalToolWear = 0,
          EndTime = None\<rparr>])"
  using driver_okD[OF assms(1)] assms(2,3)
  by (simp add: try_block_def Let_def insert_batches_Nil documents_Nil)

lemma documents_nth:
  assumes "length tss = n" "length (workpiece_temp a) = n" "length (vibration a) = n"
    "length (current_rpm a) = n" "length (current_power a) = n" "length (tool_wear a) = n"
    and "i < n"
  shows "documents tss lathe_id job_id material job_type tool_no a ! i =
    \<lparr>JobID = job_id, LatheID = lathe_id, Material = material, JobType = job_type,
     ToolNo = tool_no, timestamp = tss ! i, Temperature = workpiece_temp a ! i,
     Vibration = vibration a ! i, RPM = current_rpm a ! i, Power = current_power a ! i,
     ToolWear = tool_wear a ! i\<rparr>"
  using assms by (simp add: documents_def)

lemma documents_fields:
  assumes "length tss = n" "length (workpiece_temp a) = n" "length (vibration a) = n"
    "length (current_rpm a) = n" "length (current_power a) = n" "length (tool_wear a) = n"
  shows "map timestamp (documents tss lathe_id job_id material job_type tool_no a) = tss"
    "map Temperature (documents tss lathe_id job_id material job_type tool_no a) = workpiece_temp a"
    "map Vibration (documents tss lathe_id job_id material job_type tool_no a) = vibration a"
    "map RPM (documents tss lathe_id job_id material job_type tool_no a) = current_rpm a"
    "map Power (documents tss lathe_id job_id material job_type tool_no a) = current_power a"
    "map ToolWear (documents tss lathe_id job_id material job_type tool_no a) = tool_wear a"
  using assms length_documents[OF assms, of lathe_id job_id material job_type tool_no]
    documents_nth[OF assms, of _ lathe_id job_id material job_type tool_no]
  by (simp_all add: list_eq_iff_nth_eq)

lemma ten_minute_lengths:
  assumes "simulation rnd zs 10 material job_type tool_no = Inr a"
  shows "length (elapsed_minutes a) = 120" "length (tool_wear a) = 120"
    "length (current_rpm a) = 120" "length (current_power a) = 120"
    "length (workpiece_temp a) = 120" "length (vibration a) = 120"
proof -
  have n: "nat (py_int (10 * 60 / 5)) = 120" by (simp add: py_int_def)
  show "length (elapsed_minutes a) = 120" "length (tool_wear a) = 120"
    "length (current_rpm a) = 120" "length (current_power a) = 120"
    "length (workpiece_temp a) = 120" "length (vibration a) = 120"
    using simulation_lengths[OF assms refl] unfolding n by blast+
qed

lemma first_document:
  assumes ok: "driver_ok w"
  shows "length (SensoryData (snd (generate_batch_sensor_data w empty_db lathe_id job_id 10
            ''Mild Steel'' ''turning'' 1)) lathe_id) = 120"
    and "timestamp (hd (SensoryData (snd (generate_batch_sensor_data w empty_db lathe_id job_id 10
            ''Mild Steel'' ''turning'' 1)) lathe_id)) = now_base w"
    and "RPM (hd (SensoryData (snd (generate_batch_sensor_data w empty_db lathe_id job_id 10
            ''Mild Steel'' ''turning'' 1)) lathe_id))
         = max 100 (real_of_int (randint 800 1200 (py_random w 0))
                      * (1 + 3 / 100 * np_random w 120))"
proof -
  have m: "''Mild Steel'' \<in> dom TOOL_WEAR_RATES" by (simp add: material_known)
  have j: "''turning'' \<in> set JOB_TYPES" by (simp add: JOB_TYPES_def)
  have n: "py_int (10 * 60 / 5) = 120" by (simp add: py_int_def)
  have p: "0 < py_int (10 * 60 / 5)" unfolding n by simp
  let ?S = "SensoryData (snd (generate_batch_sensor_data w empty_db lathe_id job_id 10
            ''Mild Steel'' ''turning'' 1)) lathe_id"
  from generate_success[OF ok m j p, of 1 lathe_id job_id empty_db] obtain a where
    a: "simulation (py_random w) (np_random w) 10 ''Mild Steel'' ''turning'' 1 = Inr a"
    and S: "?S = documents (timestamps (now_base w) 120) lathe_id job_id
                   ''Mild Steel'' ''turning'' 1 a"
    unfolding n by (auto simp: empty_db_def)
  note len = ten_minute_lengths[OF a]
  have ld: "length ?S = 120"
    unfolding S by (rule length_documents[OF length_timestamps len(5,6,3,4,2)])
  show "length ?S = 120" by (rule ld)
  have ne: "?S \<noteq> []" using ld by auto
  have "timestamp (hd ?S) = hd (map timestamp ?S)" using ne by (simp add: hd_map)
  also have "\<dots> = hd (timestamps (now_base w) 120)"
    unfolding S using documents_fields(1)[OF length_timestamps len(5,6,3,4,2)] by simp
  also have "\<dots> = now_base w"
    by (simp add: timestamps_def timedelta_def hd_map upt_conv_Cons)
  finally show "timestamp (hd ?S) = now_base w" .
  have w0: "tool_wear a ! 0 = 0"
  proof -
    from simulation_arrays[OF a refl] have
      l: "linspace 0 10 (py_int (10 * 60 / 5)) = Inr (elapsed_minutes a)" by blast
    have "elapsed_minutes a ! 0 = 0" using nth_linspace[OF l, of 0] unfolding n by simp
    moreover from simulation_tool_wear_nth[OF a, of 0] len(2) obtain rate where
      "tool_wear a ! 0 = min 100 (rate * elapsed_minutes a ! 0 * (1 + 5 / 100 * np_random w 0))"
      by auto
    ultimately show ?thesis by simp
  qed
  have b: "base_rpm_dict (py_random w) ''Mild Steel'' = Some (randint 800 1200 (py_random w 0))"
    by (simp add: base_rpm_dict_def)
  from simulation_rpm_nth[OF a, of 0] len(3) b have
    r0: "current_rpm a ! 0 = max 100 (real_of_int (randint 800 1200 (py_random w 0))
          * (1 - tool_wear a ! 0 / 500) * (1 + 3 / 100 * np_random w (120 + 0)))"
    unfolding n by auto
  have "RPM (hd ?S) = hd (map RPM ?S)" using ne by (simp add: hd_map)
  also have "\<dots> = hd (current_rpm a)"
    unfolding S using documents_fields(4)[OF length_timestamps len(5,6,3,4,2)] by simp
  also have "\<dots> = current_rpm a ! 0"
  proof (rule hd_conv_nth)
    show "current_rpm a \<noteq> []" using len(3) by auto
  qed
  finally show "RPM (hd ?S) = max 100 (real_of_int (randint 800 1200 (py_random w 0))
                      * (1 + 3 / 100 * np_random w 120))"
    unfolding r0 w0 by simp
qed

section \<open>The claims\<close>

text \<open>
  Claim C1 at concrete inputs. The time vector comes from \<^verbatim>\<open>np.linspace(0, duration,
  n_points)\<close>, whose step is \<open>duration / (n_points - 1)\<close>. For a quarter of a minute the
  three samples lie at 0, 1/8 and 1/4 minute, while their timestamps are 0, 5 and 10 seconds
  after the base time; for 10 minutes the second sample lies at 10/119 minute, not at 1/12.
\<close>

theorem C1_time_vector_step:
  "map_sum id elapsed_minutes
     (simulation (const_stream 0) (const_stream 0) (1 / 4) ''Mild Steel'' ''turning'' 1)
     = Inr [0, 1 / 8, 1 / 4]
   \<and> timestamps 0 3 = [0, 5000000, 10000000]
   \<and> map_sum id (hd \<circ> tl \<circ> elapsed_minutes)
       (simulation (const_stream 0) (const_stream 0) 10 ''Mild Steel'' ''turning'' 1)
       = Inr (10 / 119)"
proof -
  have q: "map_sum id elapsed_minutes
     (simulation (const_stream 0) (const_stream 0) (1 / 4) ''Mild Steel'' ''turning'' 1)
     = Inr [0, 1 / 8, 1 / 4]"
    unfolding quarter_run_eq by (simp add: quarter_run_def)
  have t: "timestamps 0 3 = [0, 5000000, 10000000]"
    by (simp add: timestamps_def timedelta_def upt_conv_Cons)
  have m: "''Mild Steel'' \<in> dom TOOL_WEAR_RATES" by (simp add: material_known)
  have j: "''turning'' \<in> set JOB_TYPES" by (simp add: JOB_TYPES_def)
  have n: "py_int (10 * 60 / 5) = 120" by (simp add: py_int_def)
  from simulation_Inr_ex[OF m j, of 10 "const_stream 0" "const_stream 0" 1] n obtain a where
    a: "simulation (const_stream 0) (const_stream 0) 10 ''Mild Steel'' ''turning'' 1 = Inr a"
    by auto
  note len = simulation_lengths(1)[OF a refl, unfolded n]
  from simulation_arrays[OF a refl] have
    l: "linspace 0 10 (py_int (10 * 60 / 5)) = Inr (elapsed_minutes a)" by blast
  have "elapsed_minutes a ! 1 = 10 / 119"
    using nth_linspace[OF l, of 1] unfolding n by simp
  moreover have "hd (tl (elapsed_minutes a)) = elapsed_minutes a ! 1"
    using len by (cases "elapsed_minutes a"; cases "tl (elapsed_minutes a)") auto
  ultimately have "map_sum id (hd \<circ> tl \<circ> elapsed_minutes)
       (simulation (const_stream 0) (const_stream 0) 10 ''Mild Steel'' ''turning'' 1)
       = Inr (10 / 119)"
    unfolding a by simp
  with q t show ?thesis by blast
qed

text \<open>
  Claim C2. For every run and every produced sample, the tool wear is
  \<open>min(100, rate * t * noise)\<close> with the noise \<open>1 + 0.05 * z\<close> of that sample, and it
  satisfies \<open>0 \<le> wear \<le> 100\<close>, for every variate \<open>z\<close> that
  \<^verbatim>\<open>np.random.normal\<close> can return (\<open>gauss_range\<close>).
\<close>

theorem C2_tool_wear_range:
  assumes "simulation rnd zs duration material job_type tool_no = Inr a"
    and "i < length (tool_wear a)"
    and "gauss_range (zs i)"
  shows "0 \<le> tool_wear a ! i \<and> tool_wear a ! i \<le> 100
       \<and> (\<exists>rate. TOOL_WEAR_RATES material = Some rate
             \<and> tool_wear a ! i = min 100 (rate * elapsed_minutes a ! i * (1 + 5 / 100 * zs i)))"
proof -
  note len = simulation_lengths[OF assms(1) refl]
  from simulation_tool_wear_nth[OF assms(1,2)] obtain rate where
    rate: "TOOL_WEAR_RATES material = Some rate"
    and w: "tool_wear a ! i = min 100 (rate * elapsed_minutes a ! i * (1 + 5 / 100 * zs i))"
    by blast
  have e: "0 \<le> elapsed_minutes a ! i"
    using simulation_elapsed_nonneg(1)[OF assms(1)] assms(2) len by simp
  have "- 13 \<le> zs i" using assms(3) by (simp add: gauss_range_def abs_le_iff)
  then have noise: "0 \<le> 1 + 5 / 100 * zs i" by simp
  have "0 \<le> rate * elapsed_minutes a ! i * (1 + 5 / 100 * zs i)"
    using wear_rate_pos[OF rate] e noise by simp
  then have lo: "0 \<le> tool_wear a ! i" using w by simp
  have up: "tool_wear a ! i \<le> 100" using w by simp
  from lo up rate w show ?thesis by blast
qed

theorem C2_tool_wear_range_witness:
  "simulation (const_stream 0) (const_stream 0) (1 / 4) ''Mild Steel'' ''turning'' 1 = Inr quarter_run
   \<and> (1::nat) < length (tool_wear quarter_run)
   \<and> gauss_range (const_stream 0 1)
   \<and> 0 \<le> tool_wear quarter_run ! 1 \<and> tool_wear quarter_run ! 1 \<le> 100"
proof -
  have l: "(1::nat) < length (tool_wear quarter_run)" by (simp add: quarter_run_def)
  have z: "gauss_range (const_stream 0 1)" by (simp add: gauss_range_def const_stream_def)
  from C2_tool_wear_range[OF quarter_run_eq l z] have
    "0 \<le> tool_wear quarter_run ! 1" "tool_wear quarter_run ! 1 \<le> 100"
    by blast+
  with quarter_run_eq l z show ?thesis by blast
qed

text \<open>
  Claim C3, as amended. For a material that is not a key of the lookups,
  \<^verbatim>\<open>calculate_machine_parameters\<close> raises \<^verbatim>\<open>KeyError(material)\<close>, so the simulation
  stops before any sampling. \<^verbatim>\<open>generate_batch_sensor_data\<close> catches the exception and
  returns a string that begins with \<^verbatim>\<open>Error occurred: \<close>; it adds no sensor document.
  With a healthy driver the string is \<^verbatim>\<open>Error occurred: \<close> followed by the repr of
  the material, and the job record inserted before the simulation stays in
  \<^verbatim>\<open>JobDetails\<close> with status \<^verbatim>\<open>Running\<close>.
\<close>

theorem C3_unknown_material:
  assumes "material \<notin> dom TOOL_WEAR_RATES"
  shows "calculate_machine_parameters (py_random w) material job_type (10 + tool_no * 2)
           = Inl (KeyError material)
       \<and> simulation (py_random w) (np_random w) duration material job_type tool_no
           = Inl (KeyError material)
       \<and> (\<exists>msg. fst (generate_batch_sensor_data w db lathe_id job_id duration material
                        job_type tool_no) = ''Error occurred: '' @ msg)
       \<and> SensoryData (snd (generate_batch_sensor_data w db lathe_id job_id duration material
                              job_type tool_no)) = SensoryData db
       \<and> (driver_ok w \<longrightarrow>
            generate_batch_sensor_data w db lathe_id job_id duration material job_type tool_no =
              (''Error occurred: '' @ py_repr material,
               db\<lparr>JobDetails := (JobDetails db)(lathe_id := JobDetails db lathe_id @
                 [\<lparr>JobID = job_id, LatheID = lathe_id, Material = material, JobType = job_type,
                   ToolNo = tool_no, StartTime = now_start w, Status = ''Running'',
                   FinalToolWear = 0, EndTime = None\<rparr>])\<rparr>))"
proof -
  note c = calculate_machine_parameters_unknown[OF assms, of "py_random w" job_type
      "10 + tool_no * 2"]
  note s = simulation_unknown_material[OF assms, of "py_random w" "np_random w" duration
      job_type tool_no]
  have none: "\<forall>a. simulation (py_random w) (np_random w) duration material job_type tool_no = Inr a
             \<longrightarrow> tool_wear a = []"
    unfolding s by simp
  from generate_failure(1)[OF none, of db lathe_id job_id]
  have m: "\<exists>msg. fst (generate_batch_sensor_data w db lathe_id job_id duration material
                        job_type tool_no) = ''Error occurred: '' @ msg"
    by blast
  note u = generate_failure(2)[OF none, of db lathe_id job_id]
  have g: "generate_batch_sensor_data w db lathe_id job_id duration material job_type tool_no =
              (''Error occurred: '' @ py_repr material,
               db\<lparr>JobDetails := (JobDetails db)(lathe_id := JobDetails db lathe_id @
                 [\<lparr>JobID = job_id, LatheID = lathe_id, Material = material, JobType = job_type,
                   ToolNo = tool_no, StartTime = now_start w, Status = ''Running'',
                   FinalToolWear = 0, EndTime = None\<rparr>])\<rparr>)"
    if "driver_ok w"
    using generate_simulation_error[OF that s, of db lathe_id job_id] by simp
  from c s m u g show ?thesis by blast
qed

theorem C3_unknown_material_witness:
  "''Titanium'' \<notin> dom TOOL_WEAR_RATES \<and> driver_ok (quiet_world 0)
   \<and> simulation (py_random (quiet_world 0)) (np_random (quiet_world 0)) 10 ''Titanium'' ''turning'' 1
       = Inl (KeyError ''Titanium'')
   \<and> fst (generate_batch_sensor_data (quiet_world 0) empty_db 1 ''JOB0101'' 10 ''Titanium''
            ''turning'' 1) = ''Error occurred: '' @ py_repr ''Titanium''
   \<and> SensoryData (snd (generate_batch_sensor_data (quiet_world 0) empty_db 1 ''JOB0101'' 10
            ''Titanium'' ''turning'' 1)) 1 = []"
proof -
  have m: "''Titanium'' \<notin> dom TOOL_WEAR_RATES" by (simp add: material_known)
  note t = C3_unknown_material[OF m, of "quiet_world 0" "''turning''" 1 10 empty_db 1 "''JOB0101''"]
  from t have "simulation (py_random (quiet_world 0)) (np_random (quiet_world 0)) 10 ''Titanium''
      ''turning'' 1 = Inl (KeyError ''Titanium'')" by blast
  moreover from t driver_ok_quiet_world[of 0]
  have "fst (generate_batch_sensor_data (quiet_world 0) empty_db 1 ''JOB0101'' 10 ''Titanium''
            ''turning'' 1) = ''Error occurred: '' @ py_repr ''Titanium''" by simp
  moreover from t have "SensoryData (snd (generate_batch_sensor_data (quiet_world 0) empty_db 1
      ''JOB0101'' 10 ''Titanium'' ''turning'' 1)) 1 = []"
    by (simp add: empty_db_def)
  ultimately show ?thesis using m driver_ok_quiet_world[of 0] by blast
qed

text \<open>
  Claim C3 as stated, a typed error \<^verbatim>\<open>UnknownMaterial\<close> and no partial output, fails:
  for the material \<^verbatim>\<open>Nonexistent\<close> the function returns normally, with a string, and
  leaves a job record behind.
\<close>

theorem C3_returns_string_and_job_record:
  "fst (generate_batch_sensor_data (quiet_world 0) empty_db 1 ''JOB0101'' 10 ''Nonexistent''
          ''turning'' 1) = ''Error occurred: '' @ [CHR 0x27] @ ''Nonexistent'' @ [CHR 0x27]
   \<and> JobDetails (snd (generate_batch_sensor_data (quiet_world 0) empty_db 1 ''JOB0101'' 10
          ''Nonexistent'' ''turning'' 1)) 1 =
       [\<lparr>JobID = ''JOB0101'', LatheID = 1, Material = ''Nonexistent'', JobType = ''turning'',
         ToolNo = 1, StartTime = 0, Status = ''Running'', FinalToolWear = 0, EndTime = None\<rparr>]"
proof -
  have m: "''Nonexistent'' \<notin> dom TOOL_WEAR_RATES" by (simp add: material_known)
  have r: "py_repr ''Nonexistent'' = [CHR 0x27] @ ''Nonexistent'' @ [CHR 0x27]"
    by (simp add: py_repr_def repr_char_def Let_def)
  note s = simulation_unknown_material[OF m, of "py_random (quiet_world 0)"
      "np_random (quiet_world 0)" 10 "''turning''" 1]
  show ?thesis
    unfolding generate_simulation_error[OF driver_ok_quiet_world s]
    by (simp add: r empty_db_def quiet_world_def)
qed

text \<open>
  Claim C4, as amended. The code validates neither the duration nor the tool number. For
  every non-positive duration \<^verbatim>\<open>generate_batch_sensor_data\<close> returns a string that
  begins with \<^verbatim>\<open>Error occurred: \<close> and adds no sensor document. With a healthy driver
  and a known material and operation the string carries the \<^verbatim>\<open>ValueError\<close> of
  \<^verbatim>\<open>np.linspace\<close> when the number of points \<^verbatim>\<open>int(duration * 60 / 5)\<close> is
  negative and the \<^verbatim>\<open>IndexError\<close> of \<^verbatim>\<open>tool_wear[-1]\<close> when it is 0, and in both
  cases the job record inserted before the simulation stays in \<^verbatim>\<open>JobDetails\<close> with status
  \<^verbatim>\<open>Running\<close>. A non-positive tool number that fits a signed 64-bit integer is
  accepted: with a healthy driver, a known material and operation and a duration of at least
  5 seconds the run returns the success message with \<open>floor(duration * 60 / 5)\<close> data
  points.
\<close>

theorem C4_no_input_validation:
  "(duration \<le> 0 \<longrightarrow>
      (\<exists>e. fst (try_block w db lathe_id job_id duration material job_type tool_no) = Inl e
          \<and> fst (generate_batch_sensor_data w db lathe_id job_id duration material job_type tool_no)
              = ''Error occurred: '' @ str_exn e)
      \<and> SensoryData (snd (generate_batch_sensor_data w db lathe_id job_id duration material
                             job_type tool_no)) = SensoryData db)
   \<and> (driver_ok w \<and> material \<in> dom TOOL_WEAR_RATES \<and> job_type \<in> set JOB_TYPES
        \<and> duration \<le> 0 \<longrightarrow>
      fst (generate_batch_sensor_data w db lathe_id job_id duration material job_type tool_no)
        = (if py_int (duration * 60 / 5) < 0
           then ''Error occurred: Number of samples, '' @ str_int (py_int (duration * 60 / 5))
                  @ '', must be non-negative.''
           else ''Error occurred: index -1 is out of bounds for axis 0 with size 0'')
      \<and> JobDetails (snd (generate_batch_sensor_data w db lathe_id job_id duration material
                            job_type tool_no)) lathe_id
          = JobDetails db lathe_id @
              [\<lparr>JobID = job_id, LatheID = lathe_id, Material = material, JobType = job_type,
                ToolNo = tool_no, StartTime = now_start w, Status = ''Running'',
                FinalToolWear = 0, EndTime = None\<rparr>])
   \<and> (driver_ok w \<and> material \<in> dom TOOL_WEAR_RATES \<and> job_type \<in> set JOB_TYPES
        \<and> 1 / 12 \<le> duration \<and> tool_no \<le> 0 \<and> - (2 ^ 63) \<le> tool_no \<longrightarrow>
      fst (generate_batch_sensor_data w db lathe_id job_id duration material job_type tool_no)
        = ''Successfully generated '' @ str_nat (nat \<lfloor>duration * 60 / 5\<rfloor>)
            @ '' data points for Job '' @ job_id @ '' (Lathe '' @ str_int lathe_id @ '')'')"
proof -
  let ?sim = "simulation (py_random w) (np_random w) duration material job_type tool_no"
  let ?gen = "generate_batch_sensor_data w db lathe_id job_id duration material job_type tool_no"
  let ?rec = "\<lparr>JobID = job_id, LatheID = lathe_id, Material = material, JobType = job_type,
                ToolNo = tool_no, StartTime = now_start w, Status = ''Running'',
                FinalToolWear = 0, EndTime = None\<rparr>"
  have nonpos: "(\<exists>e. fst (try_block w db lathe_id job_id duration material job_type tool_no) = Inl e
          \<and> fst ?gen = ''Error occurred: '' @ str_exn e)
      \<and> SensoryData (snd ?gen) = SensoryData db"
    if d: "duration \<le> 0"
  proof -
    have "py_int (duration * 60 / 5) \<le> 0" using d by (intro py_int_nonpos) simp
    then have "\<forall>a. ?sim = Inr a \<longrightarrow> tool_wear a = []"
      using simulation_empty by blast
    from generate_failure[OF this, of db lathe_id job_id] show ?thesis by blast
  qed
  have which: "fst ?gen
        = (if py_int (duration * 60 / 5) < 0
           then ''Error occurred: Number of samples, '' @ str_int (py_int (duration * 60 / 5))
                  @ '', must be non-negative.''
           else ''Error occurred: index -1 is out of bounds for axis 0 with size 0'')
      \<and> JobDetails (snd ?gen) lathe_id = JobDetails db lathe_id @ [?rec]"
    if ok: "driver_ok w" and m: "material \<in> dom TOOL_WEAR_RATES" and j: "job_type \<in> set JOB_TYPES"
      and d: "duration \<le> 0"
  proof (cases "py_int (duration * 60 / 5) < 0")
    case True
    note s = simulation_negative_message[OF m j True, of "py_random w" "np_random w" tool_no]
    from generate_simulation_error[OF ok s, of db lathe_id job_id] True show ?thesis by simp
  next
    case False
    have "py_int (duration * 60 / 5) \<le> 0" using d by (intro py_int_nonpos) simp
    with False have z: "py_int (duration * 60 / 5) = 0" by simp
    from simulation_Inr_ex[OF m j, of duration] z obtain a where a: "?sim = Inr a" by fastforce
    have e: "tool_wear a = []" using simulation_empty[OF a] z by simp
    from try_block_empty[OF ok a e, of db lathe_id job_id]
      try_block_empty_state[OF ok a e, of db lathe_id job_id] False
    show ?thesis by (simp add: generate_fst generate_snd)
  qed
  have pos: "fst ?gen
        = ''Successfully generated '' @ str_nat (nat \<lfloor>duration * 60 / 5\<rfloor>)
            @ '' data points for Job '' @ job_id @ '' (Lathe '' @ str_int lathe_id @ '')''"
    if ok: "driver_ok w" and m: "material \<in> dom TOOL_WEAR_RATES" and j: "job_type \<in> set JOB_TYPES"
      and d: "1 / 12 \<le> duration"
  proof -
    have f: "py_int (duration * 60 / 5) = \<lfloor>duration * 60 / 5\<rfloor>"
      using d by (intro py_int_floor) simp
    have "1 \<le> duration * 60 / 5" using d by simp
    then have "1 \<le> \<lfloor>duration * 60 / 5\<rfloor>" by linarith
    then have "0 < py_int (duration * 60 / 5)" unfolding f by simp
    from generate_success[OF ok m j this, of tool_no lathe_id job_id db] show ?thesis
      unfolding f by blast
  qed
  from nonpos which pos show ?thesis by blast
qed

theorem C4_no_input_validation_witness:
  "driver_ok (quiet_world 0) \<and> ''Wood'' \<in> dom TOOL_WEAR_RATES \<and> ''boring'' \<in> set JOB_TYPES
   \<and> (0::real) \<le> 0 \<and> (- 1 :: real) \<le> 0 \<and> (1 / 12 :: real) \<le> 1 / 2
   \<and> (- 4 :: int) \<le> 0 \<and> - (2 ^ 63) \<le> (- 4 :: int)
   \<and> SensoryData (snd (generate_batch_sensor_data (quiet_world 0) empty_db 2 ''JOB0201'' 0
         ''Wood'' ''boring'' 3)) = SensoryData empty_db
   \<and> fst (generate_batch_sensor_data (quiet_world 0) empty_db 2 ''JOB0201'' 0 ''Wood'' ''boring'' 3)
        = ''Error occurred: index -1 is out of bounds for axis 0 with size 0''
   \<and> fst (generate_batch_sensor_data (quiet_world 0) empty_db 2 ''JOB0201'' (- 1) ''Wood''
        ''boring'' 3) = ''Error occurred: Number of samples, -12, must be non-negative.''
   \<and> JobDetails (snd (generate_batch_sensor_data (quiet_world 0) empty_db 2 ''JOB0201'' (- 1)
        ''Wood'' ''boring'' 3)) 2 =
       [\<lparr>JobID = ''JOB0201'', LatheID = 2, Material = ''Wood'', JobType = ''boring'', ToolNo = 3,
         StartTime = 0, Status = ''Running'', FinalToolWear = 0, EndTime = None\<rparr>]
   \<and> fst (generate_batch_sensor_data (quiet_world 0) empty_db 2 ''JOB0201'' (1 / 2) ''Wood''
        ''boring'' (- 4))
        = ''Successfully generated 6 data points for Job JOB0201 (Lathe 2)''"
proof -
  have m: "''Wood'' \<in> dom TOOL_WEAR_RATES" by (simp add: material_known)
  have j: "''boring'' \<in> set JOB_TYPES" by (simp add: JOB_TYPES_def)
  note ok = driver_ok_quiet_world[of 0]
  have six: "str_nat (nat \<lfloor>1 / 2 * 60 / 5 :: real\<rfloor>) = ''6''"
    by (simp add: str_nat.simps digit_def)
  have two: "str_int 2 = ''2''" by (simp add: str_int_def str_nat.simps digit_def)
  have n0: "py_int (0 * 60 / 5) = 0" and n1: "py_int (- 1 * 60 / 5) = - 12"
    by (simp_all add: py_int_def)
  have twelve: "str_int (- 12) = ''-12''"
    by (simp add: str_int_def str_nat.simps[of 12] str_nat.simps[of 1] str_nat.simps[of "Suc 0"]
        digit_def)
  note z = C4_no_input_validation[of 0 "quiet_world 0" empty_db 2 "''JOB0201''" "''Wood''"
      "''boring''" 3]
  note v = C4_no_input_validation[of "- 1" "quiet_world 0" empty_db 2 "''JOB0201''" "''Wood''"
      "''boring''" 3]
  note h = C4_no_input_validation[of "1 / 2" "quiet_world 0" empty_db 2 "''JOB0201''" "''Wood''"
      "''boring''" "- 4"]
  from z have 1: "SensoryData (snd (generate_batch_sensor_data (quiet_world 0) empty_db 2 ''JOB0201'' 0
         ''Wood'' ''boring'' 3)) = SensoryData empty_db" by simp
  from z ok m j have 2: "fst (generate_batch_sensor_data (quiet_world 0) empty_db 2 ''JOB0201'' 0
      ''Wood'' ''boring'' 3) = ''Error occurred: index -1 is out of bounds for axis 0 with size 0''"
    unfolding n0 by simp
  from v ok m j have 3: "fst (generate_batch_sensor_data (quiet_world 0) empty_db 2 ''JOB0201'' (- 1)
      ''Wood'' ''boring'' 3) = ''Error occurred: Number of samples, '' @ str_int (- 12)
        @ '', must be non-negative.''"
    and 4: "JobDetails (snd (generate_batch_sensor_data (quiet_world 0) empty_db 2 ''JOB0201'' (- 1)
        ''Wood'' ''boring'' 3)) 2 = JobDetails empty_db 2 @
       [\<lparr>JobID = ''JOB0201'', LatheID = 2, Material = ''Wood'', JobType = ''boring'', ToolNo = 3,
         StartTime = now_start (quiet_world 0), Status = ''Running'', FinalToolWear = 0,
         EndTime = None\<rparr>]"
    unfolding n1 by simp_all
  from h ok m j have 5: "fst (generate_batch_sensor_data (quiet_world 0) empty_db 2 ''JOB0201''
      (1 / 2) ''Wood'' ''boring'' (- 4))
        = ''Successfully generated '' @ str_nat (nat \<lfloor>1 / 2 * 60 / 5 :: real\<rfloor>)
            @ '' data points for Job '' @ ''JOB0201'' @ '' (Lathe '' @ str_int 2 @ '')''"
    by simp
  from 1 2 3 4 5 ok m j show ?thesis
    unfolding six two twelve by (simp add: empty_db_def quiet_world_def)
qed

text \<open>
  Claim C4 as stated, a typed \<^verbatim>\<open>InvalidToolIndex\<close> for every non-positive tool number,
  fails: with tool number 0 the run completes and reports its three data points.
\<close>

theorem C4_tool_number_zero_accepted:
  "fst (generate_batch_sensor_data (quiet_world 0) empty_db 1 ''JOB0101'' (1 / 4) ''Mild Steel''
          ''turning'' 0) = ''Successfully generated 3 data points for Job JOB0101 (Lathe 1)''"
proof -
  have m: "''Mild Steel'' \<in> dom TOOL_WEAR_RATES" by (simp add: material_known)
  have j: "''turning'' \<in> set JOB_TYPES" by (simp add: JOB_TYPES_def)
  have n: "py_int (1 / 4 * 60 / 5) = 3" by (simp add: py_int_def)
  have p: "0 < py_int (1 / 4 * 60 / 5)" unfolding n by simp
  from generate_success[OF driver_ok_quiet_world m j p, of 0 0 1 "''JOB0101''" empty_db]
  have "fst (generate_batch_sensor_data (quiet_world 0) empty_db 1 ''JOB0101'' (1 / 4) ''Mild Steel''
          ''turning'' 0) = ''Successfully generated '' @ str_nat (nat (py_int (1 / 4 * 60 / 5)))
        @ '' data points for Job '' @ ''JOB0101'' @ '' (Lathe '' @ str_int 1 @ '')''"
    by blast
  then show ?thesis unfolding n by (simp add: str_nat_3 str_int_1)
qed

text \<open>
  Claim C5. For a known material, a known operation and a positive duration, the run
  produces \<open>floor(duration * 60 / 5)\<close> samples: that is the length of the time vector, of
  the wear array and of the list of documents, and with a healthy driver it is the number of
  documents added to the \<^verbatim>\<open>SensoryData\<close> collection of the lathe.
\<close>

theorem C5_sequence_length:
  assumes "material \<in> dom TOOL_WEAR_RATES" and "job_type \<in> set JOB_TYPES" and "0 < duration"
  shows "\<exists>a. simulation (py_random w) (np_random w) duration material job_type tool_no = Inr a
       \<and> length (elapsed_minutes a) = nat \<lfloor>duration * 60 / 5\<rfloor>
       \<and> length (tool_wear a) = nat \<lfloor>duration * 60 / 5\<rfloor>
       \<and> length (documents (timestamps (now_base w) (nat (py_int (duration * 60 / 5))))
                   lathe_id job_id material job_type tool_no a) = nat \<lfloor>duration * 60 / 5\<rfloor>
       \<and> (driver_ok w \<longrightarrow>
            length (SensoryData (snd (generate_batch_sensor_data w db lathe_id job_id duration
                      material job_type tool_no)) lathe_id)
            = length (SensoryData db lathe_id) + nat \<lfloor>duration * 60 / 5\<rfloor>)"
proof -
  have n: "py_int (duration * 60 / 5) = \<lfloor>duration * 60 / 5\<rfloor>"
    using assms(3) by (intro py_int_floor) simp
  have nn: "0 \<le> py_int (duration * 60 / 5)" unfolding n using assms(3) by simp
  from simulation_Inr_ex[OF assms(1,2) nn] obtain a where
    a: "simulation (py_random w) (np_random w) duration material job_type tool_no = Inr a" ..
  note len = simulation_lengths[OF a refl]
  let ?docs = "documents (timestamps (now_base w) (nat (py_int (duration * 60 / 5))))
                   lathe_id job_id material job_type tool_no a"
  have ld: "length ?docs = nat (py_int (duration * 60 / 5))"
    by (rule length_documents[OF length_timestamps len(5,6,3,4,2)])
  have db: "length (SensoryData (snd (generate_batch_sensor_data w db lathe_id job_id duration
                      material job_type tool_no)) lathe_id)
            = length (SensoryData db lathe_id) + nat (py_int (duration * 60 / 5))"
    if ok: "driver_ok w"
  proof (cases "0 < py_int (duration * 60 / 5)")
    case True
    from generate_success[OF ok assms(1,2) True, of tool_no lathe_id job_id db]
    show ?thesis by auto
  next
    case False
    then have z: "py_int (duration * 60 / 5) \<le> 0" by simp
    have "\<forall>a. simulation (py_random w) (np_random w) duration material job_type tool_no = Inr a
             \<longrightarrow> tool_wear a = []"
      using simulation_empty[OF _ z] by blast
    from try_block_failure(2)[OF this, of db lathe_id job_id] z show ?thesis
      unfolding generate_snd by simp
  qed
  from a len(1,2) ld db show ?thesis unfolding n by blast
qed

theorem C5_sequence_length_witness:
  "''Mild Steel'' \<in> dom TOOL_WEAR_RATES \<and> ''turning'' \<in> set JOB_TYPES \<and> (0::real) < 1 / 4
   \<and> driver_ok (quiet_world 0)
   \<and> length (SensoryData (snd (generate_batch_sensor_data (quiet_world 0) empty_db 1 ''JOB0101''
                (1 / 4) ''Mild Steel'' ''turning'' 1)) 1) = 3"
proof -
  have m: "''Mild Steel'' \<in> dom TOOL_WEAR_RATES" by (simp add: material_known)
  have j: "''turning'' \<in> set JOB_TYPES" by (simp add: JOB_TYPES_def)
  have d: "(0::real) < 1 / 4" by simp
  have e: "length (SensoryData empty_db 1) = 0" by (simp add: empty_db_def)
  have f: "nat \<lfloor>1 / 4 * 60 / 5 :: real\<rfloor> = 3" by simp
  from C5_sequence_length[OF m j d, of "quiet_world 0" 1 1 "''JOB0101''" empty_db]
    driver_ok_quiet_world[of 0]
  have "length (SensoryData (snd (generate_batch_sensor_data (quiet_world 0) empty_db 1 ''JOB0101''
                (1 / 4) ''Mild Steel'' ''turning'' 1)) 1)
        = length (SensoryData empty_db 1) + nat \<lfloor>1 / 4 * 60 / 5 :: real\<rfloor>"
    by blast
  with m j d e f driver_ok_quiet_world[of 0] show ?thesis by simp
qed

text \<open>
  Claim C6. For every run that produces samples and for all values of the noise draws,
  every sample has \<open>rpm \<ge> 100\<close>, \<open>power \<ge> 0.5\<close>, \<open>25 \<le> temperature \<le> 300\<close> and
  \<open>vibration \<ge> 0\<close>: in each of the four arrays, and in each document built from them.
\<close>

theorem C6_clamps:
  assumes "simulation rnd zs duration material job_type tool_no = Inr a"
  shows "(\<forall>r \<in> set (current_rpm a). 100 \<le> r)
       \<and> (\<forall>p \<in> set (current_power a). 1 / 2 \<le> p)
       \<and> (\<forall>T \<in> set (workpiece_temp a). 25 \<le> T \<and> T \<le> 300)
       \<and> (\<forall>v \<in> set (vibration a). 0 \<le> v)
       \<and> (\<forall>d \<in> set (documents tss lathe_id job_id material job_type tool_no a).
             100 \<le> RPM d \<and> 1 / 2 \<le> Power d \<and> 25 \<le> Temperature d \<and> Temperature d \<le> 300
             \<and> 0 \<le> Vibration d)"
proof -
  from simulation_arrays[OF assms refl] obtain b p props vb nr np nt nv where
    r: "current_rpm a = rpm_simulation b (tool_wear a) nr"
    and p: "current_power a = power_simulation p (tool_wear a) np"
    and t: "workpiece_temp a = temperature_simulation 25 (7 / 10) props (current_power a)
              (elapsed_minutes a) nt"
    and v: "vibration a = vibration_simulation vb (current_rpm a) (tool_wear a) nv"
    by blast
  have R: "\<forall>r \<in> set (current_rpm a). 100 \<le> r"
    by (subst r) (blast intro: rpm_simulation_bound)
  have P: "\<forall>p \<in> set (current_power a). 1 / 2 \<le> p"
    by (subst p) (blast intro: power_simulation_bound)
  have T: "\<forall>T \<in> set (workpiece_temp a). 25 \<le> T \<and> T \<le> 300"
    by (subst t) (blast dest: temperature_simulation_bound)
  have V: "\<forall>v \<in> set (vibration a). 0 \<le> v"
    by (subst v) (blast intro: vibration_simulation_bound)
  have D: "100 \<le> RPM d \<and> 1 / 2 \<le> Power d \<and> 25 \<le> Temperature d \<and> Temperature d \<le> 300
             \<and> 0 \<le> Vibration d"
    if "d \<in> set (documents tss lathe_id job_id material job_type tool_no a)" for d
    using documents_set(1-4)[OF that] R P T V by blast
  from R P T V D show ?thesis by blast
qed

theorem C6_clamps_witness:
  "simulation (const_stream 0) (const_stream 0) (1 / 4) ''Mild Steel'' ''turning'' 1 = Inr quarter_run
   \<and> list_all (\<lambda>r. 100 \<le> r) (current_rpm quarter_run)
   \<and> list_all (\<lambda>d. 100 \<le> RPM d \<and> 1 / 2 \<le> Power d \<and> 25 \<le> Temperature d \<and> Temperature d \<le> 300
             \<and> 0 \<le> Vibration d)
        (documents (timestamps 0 3) 1 ''JOB0101'' ''Mild Steel'' ''turning'' 1 quarter_run)
   \<and> documents (timestamps 0 3) 1 ''JOB0101'' ''Mild Steel'' ''turning'' 1 quarter_run \<noteq> []"
proof -
  have nonempty: "documents (timestamps 0 3) 1 ''JOB0101'' ''Mild Steel'' ''turning'' 1 quarter_run \<noteq> []"
    by (simp add: documents_def timestamps_def quarter_run_def upt_conv_Cons)
  from C6_clamps[OF quarter_run_eq, of "timestamps 0 3" 1 "''JOB0101''"] quarter_run_eq nonempty
  show ?thesis by (simp add: list_all_iff)
qed

text \<open>
  Claim C7. With the noise switched off (every variate 0, so that every noise term keeps
  its mean) the tool wear of a run is non-decreasing along the samples, the speed is
  \<open>max(100, base_rpm * (1 - wear/500))\<close>, and between any two samples of the run, which
  share \<open>base_rpm\<close>, a larger wear never gives a larger speed.
\<close>

theorem C7_monotone_without_noise:
  assumes "simulation rnd (const_stream 0) duration material job_type tool_no = Inr a"
    and "i < length (tool_wear a)" and "j < length (tool_wear a)"
  shows "(i \<le> j \<longrightarrow> tool_wear a ! i \<le> tool_wear a ! j)
       \<and> (tool_wear a ! i \<le> tool_wear a ! j \<longrightarrow> current_rpm a ! j \<le> current_rpm a ! i)
       \<and> (\<exists>base_rpm. base_rpm_dict rnd material = Some base_rpm
             \<and> current_rpm a ! i = max 100 (real_of_int base_rpm * (1 - tool_wear a ! i / 500)))"
proof -
  let ?n = "nat (py_int (duration * 60 / 5))"
  note len = simulation_lengths[OF assms(1) refl]
  from simulation_arrays[OF assms(1) refl] have
    l: "linspace 0 duration (py_int (duration * 60 / 5)) = Inr (elapsed_minutes a)" by blast
  have i: "i < ?n" and j: "j < ?n" using assms(2,3) len(2) by simp_all
  have d: "0 \<le> duration"
    using simulation_elapsed_nonneg(2)[OF assms(1), of i] i len(1) by simp
  from simulation_tool_wear_nth[OF assms(1,2)] simulation_tool_wear_nth[OF assms(1,3)]
  obtain rate where rate: "TOOL_WEAR_RATES material = Some rate"
    and wi: "tool_wear a ! i = min 100 (rate * elapsed_minutes a ! i)"
    and wj: "tool_wear a ! j = min 100 (rate * elapsed_minutes a ! j)"
    by (auto simp: const_stream_def)
  have ri: "i < length (current_rpm a)" and rj: "j < length (current_rpm a)"
    using i j len(3) by simp_all
  from simulation_rpm_nth[OF assms(1) ri] simulation_rpm_nth[OF assms(1) rj]
  obtain b where b: "base_rpm_dict rnd material = Some b"
    and si: "current_rpm a ! i = max 100 (real_of_int b * (1 - tool_wear a ! i / 500))"
    and sj: "current_rpm a ! j = max 100 (real_of_int b * (1 - tool_wear a ! j / 500))"
    by (auto simp: const_stream_def)
  have wear: "tool_wear a ! i \<le> tool_wear a ! j" if "i \<le> j"
  proof -
    from linspace_mono[OF l d that j] have "elapsed_minutes a ! i \<le> elapsed_minutes a ! j" .
    then have "rate * elapsed_minutes a ! i \<le> rate * elapsed_minutes a ! j"
      using wear_rate_pos[OF rate] by simp
    then show ?thesis using wi wj by simp
  qed
  have speed: "current_rpm a ! j \<le> current_rpm a ! i" if "tool_wear a ! i \<le> tool_wear a ! j"
  proof -
    have "0 \<le> real_of_int b" using base_rpm_dict_range[OF b] by simp
    moreover have "1 - tool_wear a ! j / 500 \<le> 1 - tool_wear a ! i / 500" using that by simp
    ultimately have "real_of_int b * (1 - tool_wear a ! j / 500)
        \<le> real_of_int b * (1 - tool_wear a ! i / 500)"
      by (rule mult_left_mono[rotated])
    then show ?thesis using si sj by simp
  qed
  from wear speed b si show ?thesis by blast
qed

theorem C7_monotone_without_noise_witness:
  "simulation (const_stream 0) (const_stream 0) (1 / 4) ''Mild Steel'' ''turning'' 1 = Inr quarter_run
   \<and> (1::nat) < length (tool_wear quarter_run) \<and> (2::nat) < length (tool_wear quarter_run)
   \<and> (1::nat) \<le> 2
   \<and> tool_wear quarter_run ! 1 \<le> tool_wear quarter_run ! 2
   \<and> current_rpm quarter_run ! 2 \<le> current_rpm quarter_run ! 1"
proof -
  have l: "(1::nat) < length (tool_wear quarter_run)" "(2::nat) < length (tool_wear quarter_run)"
    by (simp_all add: quarter_run_def)
  from C7_monotone_without_noise[OF quarter_run_eq l] have
    "(1::nat) \<le> 2 \<longrightarrow> tool_wear quarter_run ! 1 \<le> tool_wear quarter_run ! 2"
    "tool_wear quarter_run ! 1 \<le> tool_wear quarter_run ! 2
       \<longrightarrow> current_rpm quarter_run ! 2 \<le> current_rpm quarter_run ! 1"
    by blast+
  with quarter_run_eq l show ?thesis by simp
qed

text \<open>
  Claim C8, as amended. \<^verbatim>\<open>generate_batch_sensor_data\<close> has no parameter for a random
  source, a seed or the noise: it reads the process-wide generators and the clock, and it
  writes to the database. What the inputs and the values drawn do determine: two runs for
  \<^verbatim>\<open>Mild Steel\<close>, \<^verbatim>\<open>turning\<close>, tool 1 and 10 minutes, each with a healthy driver, that
  read the same three \<^verbatim>\<open>randint\<close> values and the same 600 normal variates (all 0 when
  the noise is disabled) compute the same six arrays, each of length exactly 120, and each
  run adds 120 documents whose \<^verbatim>\<open>Temperature\<close>, \<^verbatim>\<open>Vibration\<close>, \<^verbatim>\<open>RPM\<close>,
  \<^verbatim>\<open>Power\<close> and \<^verbatim>\<open>ToolWear\<close> are these arrays. The documents of the two runs
  differ at most in their timestamps, which follow the clock of each run, and in the job and
  lathe identifiers.
\<close>

theorem C8_deterministic_in_the_draws:
  assumes "driver_ok w" and "driver_ok w'"
    and "\<forall>k<3. py_random w k = py_random w' k"
    and "\<forall>k<600. np_random w k = np_random w' k"
  shows "\<exists>a docs docs'.
         simulation (py_random w) (np_random w) 10 ''Mild Steel'' ''turning'' 1 = Inr a
       \<and> simulation (py_random w') (np_random w') 10 ''Mild Steel'' ''turning'' 1 = Inr a
       \<and> length (elapsed_minutes a) = 120 \<and> length (tool_wear a) = 120
       \<and> length (current_rpm a) = 120 \<and> length (current_power a) = 120
       \<and> length (workpiece_temp a) = 120 \<and> length (vibration a) = 120
       \<and> docs = documents (timestamps (now_base w) 120) lathe_id job_id
                   ''Mild Steel'' ''turning'' 1 a
       \<and> docs' = documents (timestamps (now_base w') 120) lathe_id' job_id'
                   ''Mild Steel'' ''turning'' 1 a
       \<and> SensoryData (snd (generate_batch_sensor_data w db lathe_id job_id 10
                              ''Mild Steel'' ''turning'' 1)) lathe_id
           = SensoryData db lathe_id @ docs
       \<and> SensoryData (snd (generate_batch_sensor_data w' db' lathe_id' job_id' 10
                              ''Mild Steel'' ''turning'' 1)) lathe_id'
           = SensoryData db' lathe_id' @ docs'
       \<and> length docs = 120 \<and> length docs' = 120
       \<and> map Temperature docs = workpiece_temp a \<and> map Temperature docs' = workpiece_temp a
       \<and> map Vibration docs = vibration a \<and> map Vibration docs' = vibration a
       \<and> map RPM docs = current_rpm a \<and> map RPM docs' = current_rpm a
       \<and> map Power docs = current_power a \<and> map Power docs' = current_power a
       \<and> map ToolWear docs = tool_wear a \<and> map ToolWear docs' = tool_wear a
       \<and> map timestamp docs = timestamps (now_base w) 120
       \<and> map timestamp docs' = timestamps (now_base w') 120"
proof -
  have m: "''Mild Steel'' \<in> dom TOOL_WEAR_RATES" by (simp add: material_known)
  have j: "''turning'' \<in> set JOB_TYPES" by (simp add: JOB_TYPES_def)
  have n: "py_int (10 * 60 / 5) = 120" by (simp add: py_int_def)
  have p: "0 < py_int (10 * 60 / 5)" unfolding n by simp
  have eq: "simulation (py_random w) (np_random w) 10 ''Mild Steel'' ''turning'' 1
      = simulation (py_random w') (np_random w') 10 ''Mild Steel'' ''turning'' 1"
  proof (rule simulation_cong)
    show "base_rpm_dict (py_random w) ''Mild Steel'' = base_rpm_dict (py_random w') ''Mild Steel''"
      by (simp only: base_rpm_dict_cong[OF assms(3)])
    show "\<forall>k<5 * nat (py_int (10 * 60 / 5)). np_random w k = np_random w' k"
      unfolding n using assms(4) by simp
  qed
  from generate_success[OF assms(1) m j p, of 1 lathe_id job_id db] obtain a where
    a: "simulation (py_random w) (np_random w) 10 ''Mild Steel'' ''turning'' 1 = Inr a"
    and sa: "SensoryData (snd (generate_batch_sensor_data w db lathe_id job_id 10
                              ''Mild Steel'' ''turning'' 1))
       = (SensoryData db)(lathe_id := SensoryData db lathe_id
               @ documents (timestamps (now_base w) 120) lathe_id job_id ''Mild Steel'' ''turning'' 1 a)"
    unfolding n by auto
  from generate_success[OF assms(2) m j p, of 1 lathe_id' job_id' db'] obtain a' where
    a': "simulation (py_random w') (np_random w') 10 ''Mild Steel'' ''turning'' 1 = Inr a'"
    and sa': "SensoryData (snd (generate_batch_sensor_data w' db' lathe_id' job_id' 10
                              ''Mild Steel'' ''turning'' 1))
       = (SensoryData db')(lathe_id' := SensoryData db' lathe_id'
               @ documents (timestamps (now_base w') 120) lathe_id' job_id' ''Mild Steel'' ''turning'' 1 a')"
    unfolding n by auto
  have aa: "a' = a" using a a' eq by simp
  note len = ten_minute_lengths[OF a]
  note f = documents_fields[OF length_timestamps len(5,6,3,4,2)]
  note ld = length_documents[OF length_timestamps len(5,6,3,4,2)]
  from a a' aa sa sa' len show ?thesis by (simp add: f ld)
qed

theorem C8_deterministic_in_the_draws_witness:
  "driver_ok (quiet_world 0) \<and> driver_ok ((quiet_world 0)\<lparr>now_base := 86400000000\<rparr>)
   \<and> py_random (quiet_world 0) = py_random ((quiet_world 0)\<lparr>now_base := 86400000000\<rparr>)
   \<and> np_random (quiet_world 0) = np_random ((quiet_world 0)\<lparr>now_base := 86400000000\<rparr>)
   \<and> simulation (py_random (quiet_world 0)) (np_random (quiet_world 0)) 10 ''Mild Steel'' ''turning'' 1
       = simulation (py_random ((quiet_world 0)\<lparr>now_base := 86400000000\<rparr>))
           (np_random ((quiet_world 0)\<lparr>now_base := 86400000000\<rparr>)) 10 ''Mild Steel'' ''turning'' 1
   \<and> length (SensoryData (snd (generate_batch_sensor_data (quiet_world 0) empty_db 1 ''JOB0101'' 10
                ''Mild Steel'' ''turning'' 1)) 1) = 120
   \<and> length (SensoryData (snd (generate_batch_sensor_data ((quiet_world 0)\<lparr>now_base := 86400000000\<rparr>)
                empty_db 2 ''JOB0201'' 10 ''Mild Steel'' ''turning'' 1)) 2) = 120
   \<and> map ToolWear (SensoryData (snd (generate_batch_sensor_data (quiet_world 0) empty_db 1
                ''JOB0101'' 10 ''Mild Steel'' ''turning'' 1)) 1)
       = map ToolWear (SensoryData (snd (generate_batch_sensor_data
                ((quiet_world 0)\<lparr>now_base := 86400000000\<rparr>) empty_db 2 ''JOB0201'' 10
                ''Mild Steel'' ''turning'' 1)) 2)"
proof -
  let ?w' = "(quiet_world 0)\<lparr>now_base := 86400000000\<rparr>"
  note ok = driver_ok_quiet_world[of 0]
  have ok': "driver_ok ?w'" using ok by (simp add: driver_ok_def)
  have r: "\<forall>k<3. py_random (quiet_world 0) k = py_random ?w' k" by simp
  have z: "\<forall>k<600. np_random (quiet_world 0) k = np_random ?w' k" by simp
  from C8_deterministic_in_the_draws[OF ok ok' r z, of 1 "''JOB0101''" 2 "''JOB0201''" empty_db empty_db]
  obtain a docs docs' where
    "simulation (py_random (quiet_world 0)) (np_random (quiet_world 0)) 10 ''Mild Steel'' ''turning'' 1 = Inr a"
    "simulation (py_random ?w') (np_random ?w') 10 ''Mild Steel'' ''turning'' 1 = Inr a"
    "SensoryData (snd (generate_batch_sensor_data (quiet_world 0) empty_db 1 ''JOB0101'' 10
                              ''Mild Steel'' ''turning'' 1)) 1 = SensoryData empty_db 1 @ docs"
    "SensoryData (snd (generate_batch_sensor_data ?w' empty_db 2 ''JOB0201'' 10
                              ''Mild Steel'' ''turning'' 1)) 2 = SensoryData empty_db 2 @ docs'"
    "length docs = 120" "length docs' = 120"
    "map ToolWear docs = tool_wear a" "map ToolWear docs' = tool_wear a"
    by blast
  then show ?thesis using ok ok' by (simp add: empty_db_def)
qed

text \<open>
  Claim C8 as stated, a pure function of its inputs and a supplied random source, fails. With
  the same arguments and the same normal variates, all 0, the timestamp of the first document
  follows the clock (0 or 86400000000), its \<^verbatim>\<open>RPM\<close> follows the state of the process-wide
  \<^verbatim>\<open>randint\<close> generator (800 or 801), and the call takes the collection from empty to
  120 documents.
\<close>

theorem C8_hidden_state_and_effects:
  "timestamp (hd (SensoryData (snd (generate_batch_sensor_data (quiet_world 0) empty_db 1
      ''JOB0101'' 10 ''Mild Steel'' ''turning'' 1)) 1)) = 0
   \<and> timestamp (hd (SensoryData (snd (generate_batch_sensor_data
        ((quiet_world 0)\<lparr>now_base := 86400000000\<rparr>) empty_db 1
        ''JOB0101'' 10 ''Mild Steel'' ''turning'' 1)) 1)) = 86400000000
   \<and> RPM (hd (SensoryData (snd (generate_batch_sensor_data (quiet_world 0) empty_db 1
        ''JOB0101'' 10 ''Mild Steel'' ''turning'' 1)) 1)) = 800
   \<and> RPM (hd (SensoryData (snd (generate_batch_sensor_data
        ((quiet_world 0)\<lparr>py_random := const_stream 1\<rparr>) empty_db 1
        ''JOB0101'' 10 ''Mild Steel'' ''turning'' 1)) 1)) = 801
   \<and> SensoryData empty_db 1 = []
   \<and> length (SensoryData (snd (generate_batch_sensor_data (quiet_world 0) empty_db 1
        ''JOB0101'' 10 ''Mild Steel'' ''turning'' 1)) 1) = 120"
proof -
  note ok = driver_ok_quiet_world[of 0]
  have ok1: "driver_ok ((quiet_world 0)\<lparr>now_base := 86400000000\<rparr>)"
    and ok2: "driver_ok ((quiet_world 0)\<lparr>py_random := const_stream 1\<rparr>)"
    using ok by (simp_all add: driver_ok_def)
  have r0: "randint 800 1200 (py_random (quiet_world 0) 0) = 800"
    and r1: "randint 800 1200 (py_random ((quiet_world 0)\<lparr>py_random := const_stream 1\<rparr>) 0) = 801"
    by (simp_all add: randint_def quiet_world_def const_stream_def)
  have z: "np_random (quiet_world 0) 120 = 0"
    "np_random ((quiet_world 0)\<lparr>py_random := const_stream 1\<rparr>) 120 = 0"
    by (simp_all add: quiet_world_def const_stream_def)
  have c: "now_base (quiet_world 0) = 0" by (simp add: quiet_world_def)
  show ?thesis
    unfolding first_document[OF ok] first_document[OF ok1] first_document[OF ok2] r0 r1 z c
    by (simp add: empty_db_def)
qed

text \<open>
  Claim C9. \<^verbatim>\<open>generate_batch_sensor_data\<close> returns a string on every path: what the
  \<^verbatim>\<open>try\<close> block returns when it succeeds, and \<^verbatim>\<open>Error occurred: \<close> followed by
  \<^verbatim>\<open>str(e)\<close> when the block raises \<open>e\<close>. An unknown material or operation always makes
  the block raise, whatever the driver does; with a healthy driver and a known material, an
  unknown operation gives \<^verbatim>\<open>Error occurred: \<close> followed by the repr of the operation.
\<close>

theorem C9_always_returns_string:
  "(\<forall>e. fst (try_block w db lathe_id job_id duration material job_type tool_no) = Inl e \<longrightarrow>
        fst (generate_batch_sensor_data w db lathe_id job_id duration material job_type tool_no)
          = ''Error occurred: '' @ str_exn e)
   \<and> (\<forall>s. fst (try_block w db lathe_id job_id duration material job_type tool_no) = Inr s \<longrightarrow>
        fst (generate_batch_sensor_data w db lathe_id job_id duration material job_type tool_no) = s)
   \<and> (material \<notin> dom TOOL_WEAR_RATES \<or> job_type \<notin> set JOB_TYPES \<longrightarrow>
        (\<exists>e. fst (try_block w db lathe_id job_id duration material job_type tool_no) = Inl e
            \<and> fst (generate_batch_sensor_data w db lathe_id job_id duration material job_type
                     tool_no) = ''Error occurred: '' @ str_exn e))
   \<and> (driver_ok w \<and> material \<in> dom TOOL_WEAR_RATES \<and> job_type \<notin> set JOB_TYPES \<longrightarrow>
        fst (generate_batch_sensor_data w db lathe_id job_id duration material job_type tool_no)
          = ''Error occurred: '' @ py_repr job_type)"
proof -
  let ?sim = "simulation (py_random w) (np_random w) duration material job_type tool_no"
  have unknown: "\<exists>e. fst (try_block w db lathe_id job_id duration material job_type tool_no) = Inl e
            \<and> fst (generate_batch_sensor_data w db lathe_id job_id duration material job_type
                     tool_no) = ''Error occurred: '' @ str_exn e"
    if u: "material \<notin> dom TOOL_WEAR_RATES \<or> job_type \<notin> set JOB_TYPES"
  proof -
    have "\<forall>a. ?sim \<noteq> Inr a" using simulation_InrD(1,2)[of "py_random w" "np_random w" duration
        material job_type tool_no] u by blast
    then have "\<forall>a. ?sim = Inr a \<longrightarrow> tool_wear a = []" by blast
    from generate_failure(1)[OF this] show ?thesis .
  qed
  have job: "fst (generate_batch_sensor_data w db lathe_id job_id duration material job_type tool_no)
          = ''Error occurred: '' @ py_repr job_type"
    if "driver_ok w" "material \<in> dom TOOL_WEAR_RATES" "job_type \<notin> set JOB_TYPES"
    using generate_simulation_error[OF that(1) simulation_unknown_job[OF that(2,3)],
        of db lathe_id job_id]
    by simp
  from unknown job show ?thesis by (simp add: generate_fst)
qed

theorem C9_always_returns_string_witness:
  "''milling'' \<notin> set JOB_TYPES \<and> driver_ok (quiet_world 0) \<and> ''Aluminum'' \<in> dom TOOL_WEAR_RATES
   \<and> fst (try_block (quiet_world 0) empty_db 1 ''JOB0102'' 10 ''Aluminum'' ''milling'' 1)
       = Inl (KeyError ''milling'')
   \<and> fst (generate_batch_sensor_data (quiet_world 0) empty_db 1 ''JOB0102'' 10 ''Aluminum''
            ''milling'' 1) = ''Error occurred: '' @ [CHR 0x27] @ ''milling'' @ [CHR 0x27]"
proof -
  have m: "''Aluminum'' \<in> dom TOOL_WEAR_RATES" by (simp add: material_known)
  have j: "''milling'' \<notin> set JOB_TYPES" by (simp add: JOB_TYPES_def)
  have r: "py_repr ''milling'' = [CHR 0x27] @ ''milling'' @ [CHR 0x27]"
    by (simp add: py_repr_def repr_char_def Let_def)
  note ok = driver_ok_quiet_world[of 0]
  have t: "fst (try_block (quiet_world 0) empty_db 1 ''JOB0102'' 10 ''Aluminum'' ''milling'' 1)
       = Inl (KeyError ''milling'')"
    using try_block_simulation_error[OF driver_okD(1-3)[OF ok]
        simulation_unknown_job[OF m j], of empty_db 1 "''JOB0102''"]
    by simp
  from C9_always_returns_string[of "quiet_world 0" empty_db 1 "''JOB0102''" 10 "''Aluminum''"
      "''milling''" 1] ok m j
  have "fst (generate_batch_sensor_data (quiet_world 0) empty_db 1 ''JOB0102'' 10 ''Aluminum''
            ''milling'' 1) = ''Error occurred: '' @ py_repr ''milling''"
    by blast
  with t ok m j show ?thesis unfolding r by blast
qed

text \<open>
  Claim C10. In every run with at least one sample the first tool wear is exactly 0, whatever
  the noise, and in every run with at least two samples the last elapsed time is exactly the
  duration.
\<close>

theorem C10_first_wear_last_elapsed:
  assumes "simulation rnd zs duration material job_type tool_no = Inr a"
  shows "(tool_wear a \<noteq> [] \<longrightarrow> hd (tool_wear a) = 0)
       \<and> (2 \<le> length (elapsed_minutes a) \<longrightarrow> last (elapsed_minutes a) = duration)"
proof -
  let ?n = "nat (py_int (duration * 60 / 5))"
  note len = simulation_lengths[OF assms(1) refl]
  from simulation_arrays[OF assms(1) refl] have
    l: "linspace 0 duration (py_int (duration * 60 / 5)) = Inr (elapsed_minutes a)" by blast
  have first: "hd (tool_wear a) = 0" if ne: "tool_wear a \<noteq> []"
  proof -
    from ne have 0: "0 < length (tool_wear a)" by simp
    then have n: "0 < ?n" using len(2) by simp
    from simulation_tool_wear_nth[OF assms 0] obtain rate where
      "tool_wear a ! 0 = min 100 (rate * elapsed_minutes a ! 0 * (1 + 5 / 100 * zs 0))" by blast
    moreover have "elapsed_minutes a ! 0 = 0" using nth_linspace[OF l n] by auto
    ultimately have "tool_wear a ! 0 = 0" by simp
    then show ?thesis using ne by (simp add: hd_conv_nth)
  qed
  have final: "last (elapsed_minutes a) = duration" if two: "2 \<le> length (elapsed_minutes a)"
  proof -
    from two len(1) have n: "1 < ?n" by simp
    then have "?n - 1 < ?n" by simp
    from nth_linspace[OF l this] n have "elapsed_minutes a ! (?n - 1) = duration" by simp
    moreover have "elapsed_minutes a \<noteq> []" using two by auto
    ultimately show ?thesis using len(1) by (simp add: last_conv_nth)
  qed
  from first final show ?thesis by blast
qed

theorem C10_first_wear_last_elapsed_witness:
  "simulation (const_stream 0) (const_stream 0) (1 / 4) ''Mild Steel'' ''turning'' 1 = Inr quarter_run
   \<and> tool_wear quarter_run \<noteq> [] \<and> hd (tool_wear quarter_run) = 0
   \<and> 2 \<le> length (elapsed_minutes quarter_run) \<and> last (elapsed_minutes quarter_run) = 1 / 4"
proof -
  have ne: "tool_wear quarter_run \<noteq> []" and two: "2 \<le> length (elapsed_minutes quarter_run)"
    by (simp_all add: quarter_run_def)
  from C10_first_wear_last_elapsed[OF quarter_run_eq] quarter_run_eq ne two show ?thesis by simp
qed

end
